theory Spec2Isabelle
  imports Complex_Main "HOL-Library.Stream" "HOL-Library.AList"
begin

section \<open>JavaScript numbers\<close>

text \<open>
  The analytical pipeline of the dashboard lives in three modules:
  \<^verbatim>\<open>data/data-loader.ts\<close> (its text is in \<^verbatim>\<open>src/setup-backend.sh\<close>),
  \<^verbatim>\<open>lib/data-processing.ts\<close> (in \<^verbatim>\<open>src/unnamed/part_000\<close>) and
  \<^verbatim>\<open>components/correlation-matrix.tsx\<close> (in \<^verbatim>\<open>src/components/data-uploader.tsx\<close>).
  It computes on JavaScript numbers, the doubles of IEEE 754. A number is one of the
  three special values (\<open>NaN\<close> and the two infinities) or a finite value, given as the
  real it stands for. An arithmetic operation on finite values takes the exact result on
  the reals and rounds it to the nearest double, a tie going to the even significand
  (\<open>rnd\<close> below), with overflow to an infinity and gradual underflow to zero. The sign
  of zero is not modelled: the code could observe it through a division by zero only, and
  the divisors it uses are counts, square roots and guarded standard deviations, never a
  negative zero.
\<close>

datatype number = Fin real | PInf | NInf | NaN

text \<open>
  Rounding to the nearest double. A double is \<open>m * 2\<^sup>e\<close> for integers \<open>\<bar>m\<bar> < 2\<^sup>5\<^sup>3\<close> and
  \<open>- 1074 \<le> e \<le> 971\<close>. For a real \<open>x\<close> that is not 0, the doubles next to \<open>x\<close> are
  multiples of \<open>2\<^sup>e\<close> for \<open>e = ulp_exp x\<close>: 52 below the binary exponent of \<open>x\<close>, and
  \<open>- 1074\<close> in the subnormal range. \<open>round_even\<close> is the nearest integer, the even one of
  the two at a tie. A result of magnitude \<open>2\<^sup>1\<^sup>0\<^sup>2\<^sup>4\<close> or more is an infinity.
\<close>

definition pow2 :: "int \<Rightarrow> real" where
  "pow2 e = (if 0 \<le> e then 2 ^ nat e else 1 / 2 ^ nat (- e))"

definition round_even :: "real \<Rightarrow> int" where
  "round_even y =
     (let f = \<lfloor>y\<rfloor>
      in if y - of_int f < 1 / 2 then f
         else if 1 / 2 < y - of_int f then f + 1
         else if even f then f else f + 1)"

definition ulp_exp :: "real \<Rightarrow> int" where
  "ulp_exp x = max (\<lfloor>log 2 \<bar>x\<bar>\<rfloor> - 52) (- 1074)"

definition rnd :: "real \<Rightarrow> number" where
  "rnd x =
     (let e = ulp_exp x;
          y = of_int (round_even (\<bar>x\<bar> / pow2 e)) * pow2 e
      in if x = 0 then Fin 0
         else if 2 ^ 1024 \<le> y then (if 0 < x then PInf else NInf)
         else Fin (sgn x * y))"

fun nneg :: "number \<Rightarrow> number" where
  "nneg (Fin a) = Fin (- a)"
| "nneg PInf = NInf"
| "nneg NInf = PInf"
| "nneg NaN = NaN"

fun nadd :: "number \<Rightarrow> number \<Rightarrow> number" where
  "nadd (Fin a) (Fin b) = rnd (a + b)"
| "nadd NaN _ = NaN"
| "nadd _ NaN = NaN"
| "nadd PInf NInf = NaN"
| "nadd NInf PInf = NaN"
| "nadd PInf _ = PInf"
| "nadd _ PInf = PInf"
| "nadd NInf _ = NInf"
| "nadd _ NInf = NInf"

definition nsub :: "number \<Rightarrow> number \<Rightarrow> number" where
  "nsub a b = nadd a (nneg b)"

fun nmul :: "number \<Rightarrow> number \<Rightarrow> number" where
  "nmul (Fin a) (Fin b) = rnd (a * b)"
| "nmul NaN _ = NaN"
| "nmul _ NaN = NaN"
| "nmul (Fin a) PInf = (if a = 0 then NaN else if 0 < a then PInf else NInf)"
| "nmul (Fin a) NInf = (if a = 0 then NaN else if 0 < a then NInf else PInf)"
| "nmul PInf (Fin b) = (if b = 0 then NaN else if 0 < b then PInf else NInf)"
| "nmul NInf (Fin b) = (if b = 0 then NaN else if 0 < b then NInf else PInf)"
| "nmul PInf PInf = PInf"
| "nmul PInf NInf = NInf"
| "nmul NInf PInf = NInf"
| "nmul NInf NInf = PInf"

text \<open>Division; a zero divisor is \<open>+0\<close>.\<close>

fun ndiv :: "number \<Rightarrow> number \<Rightarrow> number" where
  "ndiv (Fin a) (Fin b) =
     (if b = 0 then (if a = 0 then NaN else if 0 < a then PInf else NInf) else rnd (a / b))"
| "ndiv NaN _ = NaN"
| "ndiv _ NaN = NaN"
| "ndiv (Fin a) PInf = Fin 0"
| "ndiv (Fin a) NInf = Fin 0"
| "ndiv PInf (Fin b) = (if 0 \<le> b then PInf else NInf)"
| "ndiv NInf (Fin b) = (if 0 \<le> b then NInf else PInf)"
| "ndiv PInf PInf = NaN"
| "ndiv PInf NInf = NaN"
| "ndiv NInf PInf = NaN"
| "ndiv NInf NInf = NaN"

text \<open>\<^verbatim>\<open>Math.sqrt\<close>, the correctly rounded square root of IEEE 754, and \<^verbatim>\<open>Math.pow(x, 2)\<close>,
  taken as the rounded product \<open>x * x\<close> (ECMAScript leaves the precision of both to the
  engine).\<close>

fun nsqrt :: "number \<Rightarrow> number" where
  "nsqrt (Fin a) = (if a < 0 then NaN else rnd (sqrt a))"
| "nsqrt PInf = PInf"
| "nsqrt NInf = NaN"
| "nsqrt NaN = NaN"

definition npow2 :: "number \<Rightarrow> number" where
  "npow2 x = nmul x x"

text \<open>The comparisons \<^verbatim>\<open><\<close> and \<^verbatim>\<open><=\<close> on numbers: false as soon as one side is NaN.\<close>

fun nlt :: "number \<Rightarrow> number \<Rightarrow> bool" where
  "nlt (Fin a) (Fin b) = (a < b)"
| "nlt NaN _ = False"
| "nlt _ NaN = False"
| "nlt PInf _ = False"
| "nlt _ NInf = False"
| "nlt _ PInf = True"
| "nlt NInf _ = True"

fun nle :: "number \<Rightarrow> number \<Rightarrow> bool" where
  "nle (Fin a) (Fin b) = (a \<le> b)"
| "nle NaN _ = False"
| "nle _ NaN = False"
| "nle NInf _ = True"
| "nle _ PInf = True"
| "nle PInf _ = False"
| "nle _ NInf = False"

text \<open>Reading an array of numbers past its end gives \<^verbatim>\<open>undefined\<close>, which every
  arithmetic operator turns into NaN.\<close>

definition nth_num :: "number list \<Rightarrow> nat \<Rightarrow> number" where
  "nth_num xs i = (if i < length xs then xs ! i else NaN)"

text \<open>\<^verbatim>\<open>xs.reduce((sum, val) => sum + val, 0)\<close>\<close>

definition nsum :: "number list \<Rightarrow> number" where
  "nsum xs = foldl nadd (Fin 0) xs"

section \<open>JavaScript values, strings and records\<close>

text \<open>
  A column value is a number, a string, \<^verbatim>\<open>null\<close> or missing (\<^verbatim>\<open>undefined\<close>). Strings
  are lists of UTF-16 code units, of which the model has those below 256, the characters
  of Latin-1. The white space that \<^verbatim>\<open>trim\<close>, \<^verbatim>\<open>Number\<close> and \<^verbatim>\<open>parseFloat\<close> skip is
  what ECMAScript counts as white space or line terminator among them: space, tab, line
  feed, vertical tab, form feed, carriage return and no-break space.
\<close>

datatype jsval = Undefined | Null | Num number | Str string

definition is_ws :: "char \<Rightarrow> bool" where
  "is_ws c = (c \<in> set [CHR '' '', CHR 0x09, CHR 0x0A, CHR 0x0B, CHR 0x0C, CHR 0x0D, CHR 0xA0])"

definition trim :: "string \<Rightarrow> string" where
  "trim s = rev (dropWhile is_ws (rev (dropWhile is_ws s)))"

definition is_digit :: "char \<Rightarrow> bool" where
  "is_digit c = (c \<in> set ''0123456789'')"

text \<open>The value of a digit of any radix up to 16; 16 for every other character.\<close>

definition digit_val :: "char \<Rightarrow> nat" where
  "digit_val c =
     (if is_digit c then of_char c - 48
      else if c \<in> set ''abcdef'' then of_char c - 87
      else if c \<in> set ''ABCDEF'' then of_char c - 55
      else 16)"

definition digits_to_nat :: "nat \<Rightarrow> string \<Rightarrow> nat" where
  "digits_to_nat b ds = foldl (\<lambda>a c. b * a + digit_val c) 0 ds"

definition strip_sign :: "string \<Rightarrow> int \<times> string" where
  "strip_sign s =
     (case s of
        [] \<Rightarrow> (1, s)
      | c # r \<Rightarrow> if c = CHR ''+'' then (1, r) else if c = CHR ''-'' then (- 1, r) else (1, s))"

definition scale10 :: "real \<Rightarrow> int \<Rightarrow> real" where
  "scale10 m e = (if 0 \<le> e then m * 10 ^ nat e else m / 10 ^ nat (- e))"

text \<open>The exponent part \<^verbatim>\<open>e\<close>, sign, digits at the head of a string, and what follows
  it; exponent 0 and the whole string when there is no well-formed exponent part.\<close>

definition parse_exponent :: "string \<Rightarrow> int \<times> string" where
  "parse_exponent s =
     (case s of
        [] \<Rightarrow> (0, s)
      | c # r \<Rightarrow>
          if (c = CHR ''e'' \<or> c = CHR ''E'') \<and> takeWhile is_digit (snd (strip_sign r)) \<noteq> []
          then (fst (strip_sign r) * int (digits_to_nat 10 (takeWhile is_digit (snd (strip_sign r)))),
                dropWhile is_digit (snd (strip_sign r)))
          else (0, s))"

text \<open>
  The longest prefix of a string that is a decimal literal of ECMAScript
  (\<^verbatim>\<open>StrDecimalLiteral\<close>: sign, then \<^verbatim>\<open>Infinity\<close> or digits with an optional fraction and
  exponent), as its value, the decimal rounded to the nearest double, and the rest of
  the string; \<open>None\<close> when no prefix is one.
\<close>

definition parse_decimal :: "string \<Rightarrow> (number \<times> string) option" where
  "parse_decimal s =
     (let sg = fst (strip_sign s);
          s1 = snd (strip_sign s)
      in if take 8 s1 = ''Infinity'' then Some (if sg = 1 then PInf else NInf, drop 8 s1)
         else
           (let ip = takeWhile is_digit s1;
                r1 = dropWhile is_digit s1;
                fp = (case r1 of [] \<Rightarrow> [] | c # r \<Rightarrow> if c = CHR ''.'' then takeWhile is_digit r else []);
                r2 = (case r1 of [] \<Rightarrow> [] | c # r \<Rightarrow> if c = CHR ''.'' then dropWhile is_digit r else r1)
            in if ip = [] \<and> fp = [] then None
               else Some (rnd (of_int sg * scale10 (real (digits_to_nat 10 (ip @ fp)))
                                            (fst (parse_exponent r2) - int (length fp))),
                          snd (parse_exponent r2))))"

text \<open>\<^verbatim>\<open>Number.parseFloat\<close> on a string: leading white space is skipped and the longest
  numeric prefix is converted, whatever follows it.\<close>

definition js_parseFloat :: "string \<Rightarrow> number" where
  "js_parseFloat s = (case parse_decimal (dropWhile is_ws s) of None \<Rightarrow> NaN | Some (v, _) \<Rightarrow> v)"

definition parse_radix :: "nat \<Rightarrow> string \<Rightarrow> number" where
  "parse_radix b ds =
     (if ds \<noteq> [] \<and> list_all (\<lambda>c. digit_val c < b) ds then rnd (real (digits_to_nat b ds)) else NaN)"

text \<open>\<^verbatim>\<open>Number\<close> on a string: the whole trimmed string has to be a numeric literal, and
  the empty string is 0.\<close>

definition js_Number :: "string \<Rightarrow> number" where
  "js_Number s =
     (let t = trim s
      in if t = [] then Fin 0
         else if take 2 t = ''0x'' \<or> take 2 t = ''0X'' then parse_radix 16 (drop 2 t)
         else if take 2 t = ''0o'' \<or> take 2 t = ''0O'' then parse_radix 8 (drop 2 t)
         else if take 2 t = ''0b'' \<or> take 2 t = ''0B'' then parse_radix 2 (drop 2 t)
         else (case parse_decimal t of
                 Some (v, []) \<Rightarrow> v
               | _ \<Rightarrow> NaN))"

text \<open>The conversions the operators apply: \<^verbatim>\<open>ToNumber\<close>, \<^verbatim>\<open>ToBoolean\<close> and \<^verbatim>\<open>isNaN\<close>.\<close>

fun to_number :: "jsval \<Rightarrow> number" where
  "to_number Undefined = NaN"
| "to_number Null = Fin 0"
| "to_number (Num n) = n"
| "to_number (Str s) = js_Number s"

fun truthy :: "jsval \<Rightarrow> bool" where
  "truthy Undefined = False"
| "truthy Null = False"
| "truthy (Num n) = (n \<noteq> Fin 0 \<and> n \<noteq> NaN)"
| "truthy (Str s) = (s \<noteq> [])"

definition isNaN :: "jsval \<Rightarrow> bool" where
  "isNaN v = (to_number v = NaN)"

text \<open>\<^verbatim>\<open>a || b\<close>\<close>

definition js_or :: "jsval \<Rightarrow> jsval \<Rightarrow> jsval" where
  "js_or a b = (if truthy a then a else b)"

text \<open>
  \<^verbatim>\<open>String(v)\<close>. The text of a number is the engine's (\<^verbatim>\<open>Number::toString\<close>, the shortest
  decimal that reads back as the same double) and has no counterpart on the reals: it is
  the parameter \<open>nts\<close> of every function that prints a number.
\<close>

fun to_string :: "(number \<Rightarrow> string) \<Rightarrow> jsval \<Rightarrow> string" where
  "to_string nts Undefined = ''undefined''"
| "to_string nts Null = ''null''"
| "to_string nts (Num n) = nts n"
| "to_string nts (Str s) = s"

text \<open>\<^verbatim>\<open>a + b\<close>: concatenation as soon as one side is a string, addition otherwise.\<close>

fun js_add :: "(number \<Rightarrow> string) \<Rightarrow> jsval \<Rightarrow> jsval \<Rightarrow> jsval" where
  "js_add nts (Str a) b = Str (a @ to_string nts b)"
| "js_add nts a (Str b) = Str (to_string nts a @ b)"
| "js_add nts a b = Num (nadd (to_number a) (to_number b))"

definition padStart :: "nat \<Rightarrow> char \<Rightarrow> string \<Rightarrow> string" where
  "padStart n c s = replicate (n - length s) c @ s"

text \<open>
  A record (a row of the table) is an object with string keys: an association list in
  insertion order. Reading a key that is absent gives \<^verbatim>\<open>undefined\<close>. Property names that
  every object inherits (\<^verbatim>\<open>constructor\<close>, \<^verbatim>\<open>toString\<close>, ...) are not modelled.
\<close>

type_synonym row = "(string \<times> jsval) list"

definition get :: "row \<Rightarrow> string \<Rightarrow> jsval" where
  "get r k = (case map_of r k of None \<Rightarrow> Undefined | Some v \<Rightarrow> v)"

definition put :: "string \<Rightarrow> jsval \<Rightarrow> row \<Rightarrow> row" where
  "put k v r = AList.update k v r"

section \<open>Errors and the random source\<close>

text \<open>
  \<open>TypeError\<close> is what the engine throws on a property read of \<^verbatim>\<open>undefined\<close>;
  \<open>NoValidRows\<close> is the \<^verbatim>\<open>Error("No valid data rows found ...")\<close> of
  \<^verbatim>\<open>lib/data-processing.ts\<close>. \<^verbatim>\<open>Math.random()\<close> reads the head of a stream of reals
  and leaves the tail; the engine guarantees each draw to lie in \<open>[0, 1)\<close>. Under
  \<^verbatim>\<open>Math.floor\<close> the product of a draw and a count is taken exactly: for a draw that is
  a double, rounding the product can change which index is drawn, not whether it is below
  the count (lemma \<open>rnd_draw_below\<close>).
\<close>

datatype error = TypeError | NoValidRows

type_synonym rng = "real stream"

section \<open>Clustering engine (\<^verbatim>\<open>lib/data-processing.ts\<close>)\<close>

type_synonym point = "number list"

definition euclideanDistance :: "point \<Rightarrow> point \<Rightarrow> number" where
  "euclideanDistance a b =
     nsqrt (foldl (\<lambda>sum i. nadd sum (npow2 (nsub (a ! i) (nth_num b i)))) (Fin 0) [0..<length a])"

text \<open>
  The initialisation loop \<^verbatim>\<open>while (centroids.length < k)\<close> draws indices until \<open>k\<close>
  distinct ones were found; it does not terminate when \<open>k\<close> exceeds the number of
  points, so it is a partial function and \<open>None\<close> stands for "never returns".
  \<^verbatim>\<open>[...points[idx]]\<close> throws when \<open>idx\<close> is not an index of \<open>points\<close>. A thrown
  error is paired with the random source as the draws before the throw left it.
\<close>

partial_function (option) init_centroids ::
  "point list \<Rightarrow> nat \<Rightarrow> point list \<Rightarrow> int list \<Rightarrow> rng
    \<Rightarrow> (error \<times> rng + point list \<times> rng) option"
where
  "init_centroids points k centroids usedIndices g =
     (if length centroids < k then
        (if \<lfloor>shd g * real (length points)\<rfloor> \<notin> set usedIndices then
           (if 0 \<le> \<lfloor>shd g * real (length points)\<rfloor>
                 \<and> \<lfloor>shd g * real (length points)\<rfloor> < int (length points)
            then init_centroids points k
                   (centroids @ [points ! nat \<lfloor>shd g * real (length points)\<rfloor>])
                   (usedIndices @ [\<lfloor>shd g * real (length points)\<rfloor>]) (stl g)
            else Some (Inl (TypeError, stl g)))
         else init_centroids points k centroids usedIndices (stl g))
      else Some (Inr (centroids, g)))"

text \<open>The inner scan \<^verbatim>\<open>for (let j = 0; j < k; j++)\<close>: the first centroid at the least
  distance wins, and cluster 0 when no distance is below \<^verbatim>\<open>Infinity\<close>.\<close>

definition nearest_centroid :: "point \<Rightarrow> point list \<Rightarrow> nat \<Rightarrow> nat" where
  "nearest_centroid p centroids k =
     snd (foldl (\<lambda>(minDist, minCluster) j.
                   if nlt (euclideanDistance p (centroids ! j)) minDist
                   then (euclideanDistance p (centroids ! j), j)
                   else (minDist, minCluster))
                (PInf, 0) [0..<k])"

definition assign_points :: "point list \<Rightarrow> nat \<Rightarrow> point list \<Rightarrow> nat list \<Rightarrow> nat list \<times> bool" where
  "assign_points points k centroids assignments =
     foldl (\<lambda>(as, changed) i.
              if as ! i \<noteq> nearest_centroid (points ! i) centroids k
              then (as[i := nearest_centroid (points ! i) centroids k], True)
              else (as, changed))
           (assignments, False) [0..<length points]"

text \<open>\<^verbatim>\<open>newCentroids[cluster][j] += points[i][j]\<close> for every coordinate of one point. A
  coordinate past the end of the row reads \<^verbatim>\<open>undefined\<close>, and the sum NaN is stored
  there, which extends the row by one.\<close>

definition add_coords :: "point \<Rightarrow> point \<Rightarrow> point" where
  "add_coords row p =
     foldl (\<lambda>r j. if j < length r then r[j := nadd (r ! j) (p ! j)] else r @ [NaN])
           row [0..<length p]"

text \<open>The accumulation loop over the points. A cluster label that is no index of
  \<^verbatim>\<open>newCentroids\<close> (possible for \<open>k = 0\<close> only) makes \<^verbatim>\<open>newCentroids[cluster][j]\<close> throw
  as soon as the point has a coordinate.\<close>

fun accumulate :: "point list \<Rightarrow> nat list \<Rightarrow> point list \<times> nat list \<Rightarrow> nat list
    \<Rightarrow> error + (point list \<times> nat list)" where
  "accumulate points assignments (newCentroids, counts) [] = Inr (newCentroids, counts)"
| "accumulate points assignments (newCentroids, counts) (i # is) =
     (if assignments ! i < length newCentroids then
        accumulate points assignments
          (newCentroids[assignments ! i := add_coords (newCentroids ! (assignments ! i)) (points ! i)],
           counts[assignments ! i := Suc (counts ! (assignments ! i))]) is
      else if points ! i = [] then accumulate points assignments (newCentroids, counts) is
      else Inl TypeError)"

definition update_centroids ::
  "point list \<Rightarrow> nat \<Rightarrow> point list \<Rightarrow> nat list \<Rightarrow> error + point list" where
  "update_centroids points k centroids assignments =
     (case accumulate points assignments
             (replicate k (replicate (length (points ! 0)) (Fin 0)), replicate k 0)
             [0..<length points] of
        Inl e \<Rightarrow> Inl e
      | Inr (newCentroids, counts) \<Rightarrow>
          Inr (foldl (\<lambda>cs i. if counts ! i > 0
                              then cs[i := map (\<lambda>x. ndiv x (Fin (real (counts ! i)))) (newCentroids ! i)]
                              else cs)
                     centroids [0..<k]))"

function kmeans_loop ::
  "point list \<Rightarrow> nat \<Rightarrow> point list \<Rightarrow> nat list \<Rightarrow> bool \<Rightarrow> nat \<Rightarrow> error + (nat list \<times> point list)"
where
  "kmeans_loop points k centroids assignments changed iterations =
     (if changed \<and> iterations < 100 then
        (case update_centroids points k centroids
                (fst (assign_points points k centroids assignments)) of
           Inl e \<Rightarrow> Inl e
         | Inr centroids' \<Rightarrow>
             kmeans_loop points k centroids'
               (fst (assign_points points k centroids assignments))
               (snd (assign_points points k centroids assignments))
               (Suc iterations))
      else Inr (assignments, centroids))"
  by pat_completeness auto
termination
  by (relation "measure (\<lambda>(points, k, centroids, assignments, changed, iterations). 100 - iterations)")
     auto

declare kmeans_loop.simps [simp del]

text \<open>\<^verbatim>\<open>kMeansClustering(points, k)\<close>: the assignments, the centroids and the random
  source after the draws.\<close>

definition kMeansClustering ::
  "point list \<Rightarrow> nat \<Rightarrow> rng \<Rightarrow> (error \<times> rng + (nat list \<times> point list) \<times> rng) option" where
  "kMeansClustering points k g =
     (if length points = 0 then Some (Inr (([], []), g))
      else (case init_centroids points k [] [] g of
              None \<Rightarrow> None
            | Some (Inl e) \<Rightarrow> Some (Inl e)
            | Some (Inr (centroids, g')) \<Rightarrow>
                (case kmeans_loop points k centroids (replicate (length points) 0) True 0 of
                   Inl e \<Rightarrow> Some (Inl (e, g'))
                 | Inr r \<Rightarrow> Some (Inr (r, g')))))"

section \<open>CSV ingestion (\<^verbatim>\<open>parseCSV\<close> in \<^verbatim>\<open>data/data-loader.ts\<close>)\<close>

text \<open>\<^verbatim>\<open>s.split(c)\<close> for a separator of one character: never the empty array.\<close>

fun split_on :: "char \<Rightarrow> string \<Rightarrow> string list" where
  "split_on c [] = [[]]"
| "split_on c (x # xs) =
     (if x = c then [] # split_on c xs
      else (case split_on c xs of [] \<Rightarrow> [[x]] | p # ps \<Rightarrow> (x # p) # ps))"

text \<open>One cell: \<^verbatim>\<open>values[index]?.trim() || ""\<close>, then a number when \<^verbatim>\<open>Number\<close> reads the
  whole cell and the cell is not blank. \<open>None\<close> is a cell the line is too short for.\<close>

definition parse_cell :: "string option \<Rightarrow> jsval" where
  "parse_cell cell =
     (let value = (case cell of None \<Rightarrow> [] | Some s \<Rightarrow> trim s)
      in if js_Number value \<noteq> NaN \<and> value \<noteq> [] then Num (js_Number value) else Str value)"

definition parse_row :: "string list \<Rightarrow> string \<Rightarrow> row" where
  "parse_row headers line =
     foldl (\<lambda>rowData (header, index).
              put header
                (parse_cell (if index < length (split_on CHR '','' line)
                             then Some (split_on CHR '','' line ! index) else None))
                rowData)
           [] (zip headers [0..<length headers])"

definition parseCSV :: "string \<Rightarrow> row list" where
  "parseCSV csvText =
     (let rows = split_on CHR 0x0A csvText;
          headers = map trim (split_on CHR '','' (hd rows))
      in map (parse_row headers) (filter (\<lambda>line. trim line \<noteq> []) (tl rows)))"

section \<open>Field standardizer, aggregator and region mapper (\<^verbatim>\<open>data/data-loader.ts\<close>)\<close>

datatype level = County | State | Region

text \<open>
  The first pass of \<^verbatim>\<open>processData\<close> over one key of a row. \<^verbatim>\<open>Number.parseFloat\<close> first
  prints its argument; a number reads back from its own text as itself, so a value that
  is a number already stays as it is.
\<close>

definition convert_value :: "string \<Rightarrow> jsval \<Rightarrow> jsval" where
  "convert_value key v =
     (if key \<noteq> ''FIPS'' \<and> key \<noteq> ''Name'' \<and> key \<noteq> ''State Abbreviation''
         \<and> v \<noteq> Undefined \<and> v \<noteq> Null \<and> v \<noteq> Str ''''
      then (case v of
              Str s \<Rightarrow> if js_parseFloat s \<noteq> NaN then Num (js_parseFloat s) else v
            | _ \<Rightarrow> v)
      else v)"

definition convert_row :: "row \<Rightarrow> row" where
  "convert_row r = map (\<lambda>(key, v). (key, convert_value key v)) r"

text \<open>The filter on identifying fields.\<close>

definition keep_row :: "level \<Rightarrow> row \<Rightarrow> bool" where
  "keep_row lvl r =
     (case lvl of
        County \<Rightarrow>
          truthy (get r ''FIPS'')
          \<and> (truthy (get r ''Name'') \<or> truthy (get r ''County'') \<or> truthy (get r ''county''))
          \<and> (truthy (get r ''State Abbreviation'') \<or> truthy (get r ''State'')
               \<or> truthy (get r ''state''))
      | _ \<Rightarrow>
          truthy (get r ''State Abbreviation'') \<or> truthy (get r ''State'')
          \<or> truthy (get r ''state''))"

definition standardize_fips :: "(number \<Rightarrow> string) \<Rightarrow> row \<Rightarrow> row" where
  "standardize_fips nts r =
     (let r1 = (if \<not> truthy (get r ''FIPS'')
                   \<and> (truthy (get r ''fips'') \<or> truthy (get r ''FIPS Code''))
                then put ''FIPS'' (js_or (get r ''fips'') (get r ''FIPS Code'')) r else r)
      in if truthy (get r1 ''FIPS'')
         then put ''FIPS'' (Str (padStart 5 CHR ''0'' (to_string nts (get r1 ''FIPS'')))) r1
         else r1)"

definition standardize_name :: "row \<Rightarrow> row" where
  "standardize_name r =
     (if \<not> truthy (get r ''Name'')
         \<and> (truthy (get r ''County'') \<or> truthy (get r ''county'') \<or> truthy (get r ''NAME''))
      then put ''Name'' (js_or (get r ''County'') (js_or (get r ''county'') (get r ''NAME''))) r
      else r)"

definition standardize_state :: "row \<Rightarrow> row" where
  "standardize_state r =
     (if \<not> truthy (get r ''State Abbreviation'')
         \<and> (truthy (get r ''State'') \<or> truthy (get r ''state''))
      then put ''State Abbreviation'' (js_or (get r ''State'') (get r ''state'')) r
      else r)"

definition standardize_row :: "(number \<Rightarrow> string) \<Rightarrow> row \<Rightarrow> row" where
  "standardize_row nts r = standardize_state (standardize_name (standardize_fips nts r))"

definition importantMetrics :: "string list" where
  "importantMetrics =
     [''Adult Obesity raw value'',
      ''Food Insecurity raw value'',
      ''Physical Inactivity raw value'',
      ''Poor or Fair Health raw value'',
      ''Median Household Income raw value'',
      ''Children in Poverty raw value'',
      ''Life Expectancy raw value'',
      ''Adult Smoking raw value'',
      ''Uninsured raw value'',
      ''Mental Health Providers raw value'',
      ''Unemployment raw value'',
      ''Income Inequality raw value'',
      ''Air Pollution - Particulate Matter raw value'',
      ''Severe Housing Problems raw value'',
      ''Insufficient Sleep raw value'',
      ''Broadband Access raw value'',
      ''Premature Death raw value'',
      ''Low Birthweight raw value'',
      ''Access to Exercise Opportunities raw value'',
      ''Primary Care Physicians raw value'',
      ''Food Environment Index raw value'',
      ''Dentists raw value'',
      ''Preventable Hospital Stays raw value'',
      ''Mammography Screening raw value'',
      ''Flu Vaccinations raw value'',
      ''High School Completion raw value'',
      ''Children in Single-Parent Households raw value'',
      ''Injury Deaths raw value'',
      ''Driving Alone to Work raw value'',
      ''Long Commute - Driving Alone raw value'',
      ''Voter Turnout raw value'']"

text \<open>
  The grouping loop of \<^verbatim>\<open>aggregateByField\<close>: rows with a falsy key are skipped, the
  others are appended to the group of their key (the key printed, as a property name). A
  key that names a property every object inherits (\<^verbatim>\<open>constructor\<close>, \<^verbatim>\<open>toString\<close>, ...) is
  outside the model: there the source finds the inherited value in place of a group and
  throws at \<^verbatim>\<open>groups[key].push\<close>.
\<close>

definition group_step ::
  "(number \<Rightarrow> string) \<Rightarrow> string \<Rightarrow> (string \<times> row list) list \<Rightarrow> row \<Rightarrow> (string \<times> row list) list"
where
  "group_step nts field groups r =
     (if \<not> truthy (get r field) then groups
      else (case map_of groups (to_string nts (get r field)) of
              None \<Rightarrow> groups @ [(to_string nts (get r field), [r])]
            | Some rows \<Rightarrow> AList.update (to_string nts (get r field)) (rows @ [r]) groups))"

definition group_rows ::
  "(number \<Rightarrow> string) \<Rightarrow> string \<Rightarrow> row list \<Rightarrow> (string \<times> row list) list" where
  "group_rows nts field data = foldl (group_step nts field) [] data"

text \<open>
  \<^verbatim>\<open>Object.entries\<close> lists the keys that are array indices (canonical decimal integers
  below \<open>2\<^sup>3\<^sup>2 - 1\<close>) first, in ascending order, and the other keys in insertion order.
\<close>

definition is_array_index :: "string \<Rightarrow> bool" where
  "is_array_index s =
     (s \<noteq> [] \<and> list_all is_digit s \<and> (s = ''0'' \<or> hd s \<noteq> CHR ''0'')
      \<and> digits_to_nat 10 s < 4294967295)"

definition js_entries :: "(string \<times> 'a) list \<Rightarrow> (string \<times> 'a) list" where
  "js_entries al =
     sort_key (\<lambda>e. digits_to_nat 10 (fst e)) (filter (\<lambda>e. is_array_index (fst e)) al)
     @ filter (\<lambda>e. \<not> is_array_index (fst e)) al"

text \<open>The values of one metric that a group contributes:
  \<^verbatim>\<open>rows.map(r => r[metric]).filter(v => v !== undefined && v !== null && !isNaN(Number(v))).map(v => Number(v))\<close>\<close>

definition agg_values :: "row list \<Rightarrow> string \<Rightarrow> number list" where
  "agg_values rows metric =
     map to_number
       (filter (\<lambda>v. v \<noteq> Undefined \<and> v \<noteq> Null \<and> \<not> isNaN v) (map (\<lambda>r. get r metric) rows))"

definition agg_metric :: "row list \<Rightarrow> row \<Rightarrow> string \<Rightarrow> row" where
  "agg_metric rows result metric =
     (if agg_values rows metric \<noteq> []
      then put metric
             (Num (ndiv (nsum (agg_values rows metric))
                        (Fin (real (length (agg_values rows metric)))))) result
      else result)"

text \<open>\<^verbatim>\<open>rows.find((r) => r[key])?.[key]\<close>\<close>

definition find_field :: "string \<Rightarrow> row list \<Rightarrow> jsval" where
  "find_field key rows =
     (case find (\<lambda>r. truthy (get r key)) rows of None \<Rightarrow> Undefined | Some r \<Rightarrow> get r key)"

definition aggregate_group ::
  "(number \<Rightarrow> string) \<Rightarrow> string \<Rightarrow> string list \<Rightarrow> string \<times> row list \<Rightarrow> row" where
  "aggregate_group nts field metrics e =
     (let r1 = foldl (agg_metric (snd e)) [(field, Str (fst e))] metrics;
          r2 = put (field @ ''Count'') (Num (Fin (real (length (snd e))))) r1
      in if field = ''State Abbreviation'' then
           (let r3 = (if truthy (find_field ''FIPS'' (snd e))
                      then put ''FIPS''
                             (Str (padStart 2 CHR ''0''
                                     (take 2 (to_string nts (find_field ''FIPS'' (snd e)))))) r2
                      else r2)
            in if truthy (find_field ''Name'' (snd e)) then put ''Name'' (Str (fst e)) r3 else r3)
         else r2)"

definition aggregateByField ::
  "(number \<Rightarrow> string) \<Rightarrow> row list \<Rightarrow> string \<Rightarrow> string list \<Rightarrow> row list" where
  "aggregateByField nts data field metrics =
     map (aggregate_group nts field metrics) (js_entries (group_rows nts field data))"

definition regions :: "(string \<times> string) list" where
  "regions =
     [(''CT'', ''Northeast''), (''ME'', ''Northeast''), (''MA'', ''Northeast''),
      (''NH'', ''Northeast''), (''RI'', ''Northeast''), (''VT'', ''Northeast''),
      (''NJ'', ''Northeast''), (''NY'', ''Northeast''), (''PA'', ''Northeast''),
      (''IL'', ''Midwest''), (''IN'', ''Midwest''), (''MI'', ''Midwest''),
      (''OH'', ''Midwest''), (''WI'', ''Midwest''), (''IA'', ''Midwest''),
      (''KS'', ''Midwest''), (''MN'', ''Midwest''), (''MO'', ''Midwest''),
      (''NE'', ''Midwest''), (''ND'', ''Midwest''), (''SD'', ''Midwest''),
      (''DE'', ''South''), (''FL'', ''South''), (''GA'', ''South''), (''MD'', ''South''),
      (''NC'', ''South''), (''SC'', ''South''), (''VA'', ''South''), (''WV'', ''South''),
      (''AL'', ''South''), (''KY'', ''South''), (''MS'', ''South''), (''TN'', ''South''),
      (''AR'', ''South''), (''LA'', ''South''), (''OK'', ''South''), (''TX'', ''South''),
      (''DC'', ''South''),
      (''AZ'', ''West''), (''CO'', ''West''), (''ID'', ''West''), (''MT'', ''West''),
      (''NV'', ''West''), (''NM'', ''West''), (''UT'', ''West''), (''WY'', ''West''),
      (''AK'', ''West''), (''CA'', ''West''), (''HI'', ''West''), (''OR'', ''West''),
      (''WA'', ''West'')]"

definition getRegionFromState :: "(number \<Rightarrow> string) \<Rightarrow> jsval \<Rightarrow> string" where
  "getRegionFromState nts stateAbbr =
     (case map_of regions (to_string nts stateAbbr) of None \<Rightarrow> ''Unknown'' | Some r \<Rightarrow> r)"

section \<open>Burden index calculator (\<^verbatim>\<open>processData\<close> in \<^verbatim>\<open>data/data-loader.ts\<close>)\<close>

definition healthMetrics :: "string list" where
  "healthMetrics =
     [''Adult Obesity raw value'',
      ''Food Insecurity raw value'',
      ''Physical Inactivity raw value'',
      ''Poor or Fair Health raw value'']"

definition entity_id :: "level \<Rightarrow> row \<Rightarrow> jsval" where
  "entity_id lvl entity =
     (case lvl of
        County \<Rightarrow> get entity ''FIPS''
      | State \<Rightarrow> get entity ''State Abbreviation''
      | Region \<Rightarrow> get entity ''Region'')"

text \<open>The body of \<^verbatim>\<open>healthMetrics.forEach\<close> on the pair of \<^verbatim>\<open>sum\<close> and \<^verbatim>\<open>count\<close>. The
  sum is a value, not a number: \<^verbatim>\<open>sum += v\<close> concatenates when \<open>v\<close> is a string.\<close>

definition burden_step ::
  "(number \<Rightarrow> string) \<Rightarrow> row \<Rightarrow> jsval \<times> nat \<Rightarrow> string \<Rightarrow> jsval \<times> nat" where
  "burden_step nts entity sc metric =
     (if get entity metric \<noteq> Undefined \<and> \<not> isNaN (get entity metric) then
        (if nle (Fin 0) (to_number (get entity metric))
             \<and> nle (to_number (get entity metric)) (Fin 1)
         then (js_add nts (fst sc) (get entity metric), Suc (snd sc))
         else (js_add nts (fst sc) (Num (Fin (1/2))), Suc (snd sc)))
      else sc)"

definition entity_burden :: "(number \<Rightarrow> string) \<Rightarrow> row \<Rightarrow> number" where
  "entity_burden nts entity =
     (let sc = foldl (burden_step nts entity) (Num (Fin 0), 0) healthMetrics
      in if snd sc > 0 then ndiv (to_number (fst sc)) (Fin (real (snd sc))) else Fin (1/2))"

text \<open>\<^verbatim>\<open>processedData.forEach\<close>: the index is an object from printed ids to numbers; an
  entity with an id seen before overwrites the entry.\<close>

definition burden_index ::
  "(number \<Rightarrow> string) \<Rightarrow> level \<Rightarrow> row list \<Rightarrow> (string \<times> number) list" where
  "burden_index nts lvl processedData =
     foldl (\<lambda>idx entity.
              if truthy (entity_id lvl entity)
              then AList.update (to_string nts (entity_id lvl entity)) (entity_burden nts entity) idx
              else idx)
           [] processedData"

section \<open>Standardization and projection engine (\<^verbatim>\<open>lib/data-processing.ts\<close>)\<close>

definition column :: "number list list \<Rightarrow> nat \<Rightarrow> number list" where
  "column data j = map (\<lambda>r. nth_num r j) data"

definition col_mean :: "number list list \<Rightarrow> nat \<Rightarrow> number" where
  "col_mean data j = ndiv (foldl nadd (Fin 0) (column data j)) (Fin (real (length data)))"

definition col_std :: "number list list \<Rightarrow> nat \<Rightarrow> number" where
  "col_std data j =
     (let s = nsqrt (ndiv (foldl (\<lambda>acc x. nadd acc (npow2 (nsub x (col_mean data j))))
                                 (Fin 0) (column data j))
                          (Fin (real (length data))))
      in if s = Fin 0 then Fin 1 else s)"

text \<open>\<^verbatim>\<open>standardizeData\<close>: \<^verbatim>\<open>data[0].length\<close> throws on the empty matrix. The number of
  columns is that of the first row; a shorter row reads \<^verbatim>\<open>undefined\<close> there.\<close>

definition standardizeData :: "number list list \<Rightarrow> error + number list list" where
  "standardizeData data =
     (case data of
        [] \<Rightarrow> Inl TypeError
      | row0 # _ \<Rightarrow>
          Inr (map (\<lambda>r. map (\<lambda>j. ndiv (nsub (nth_num r j) (col_mean data j)) (col_std data j))
                             [0..<length row0])
                   data))"

record pcapoint =
  pc1 :: number
  pc2 :: number
  index :: "nat option"

text \<open>\<^verbatim>\<open>simplePCA\<close>: a fixed blend of the first two columns plus jitter, two draws a row.
  A decimal literal of the source is the double nearest to it. The index is
  \<^verbatim>\<open>indices[i]\<close>, \<open>None\<close> when that is \<^verbatim>\<open>undefined\<close>.\<close>

fun simplePCA_from :: "nat \<Rightarrow> number list list \<Rightarrow> nat list \<Rightarrow> rng \<Rightarrow> pcapoint list \<times> rng" where
  "simplePCA_from i [] indices g = ([], g)"
| "simplePCA_from i (r # rs) indices g =
     (\<lparr>pc1 = nadd (nadd (nmul (nth_num r 0) (rnd (8/10))) (nmul (nth_num r 1) (rnd (2/10))))
                  (nmul (nsub (Fin (shd g)) (rnd (5/10))) (rnd (5/10))),
       pc2 = nadd (nadd (nmul (nth_num r 0) (rnd (3/10))) (nmul (nth_num r 1) (rnd (7/10))))
                  (nmul (nsub (Fin (shd (stl g))) (rnd (5/10))) (rnd (5/10))),
       index = (if i < length indices then Some (indices ! i) else None)\<rparr>
      # fst (simplePCA_from (Suc i) rs indices (stl (stl g))),
      snd (simplePCA_from (Suc i) rs indices (stl (stl g))))"

definition simplePCA :: "number list list \<Rightarrow> nat list \<Rightarrow> rng \<Rightarrow> pcapoint list \<times> rng" where
  "simplePCA data indices g = simplePCA_from 0 data indices g"

definition performPCA ::
  "row list \<Rightarrow> string list \<Rightarrow> rng \<Rightarrow> error \<times> rng + pcapoint list \<times> rng" where
  "performPCA data features g =
     (case standardizeData
             (map (\<lambda>d. map (\<lambda>f. case get d f of Num n \<Rightarrow> n | _ \<Rightarrow> Fin 0) features) data) of
        Inl e \<Rightarrow> Inl (e, g)
      | Inr standardized \<Rightarrow> Inr (simplePCA standardized [0..<length data] g))"

definition performClustering ::
  "pcapoint list \<Rightarrow> nat \<Rightarrow> rng \<Rightarrow> (error \<times> rng + nat list \<times> rng) option" where
  "performClustering pcaData k g =
     (case kMeansClustering (map (\<lambda>d. [pc1 d, pc2 d]) pcaData) k g of
        None \<Rightarrow> None
      | Some (Inl e) \<Rightarrow> Some (Inl e)
      | Some (Inr r) \<Rightarrow> Some (Inr (fst (fst r), snd r)))"

section \<open>Pipeline orchestrator (\<^verbatim>\<open>processData\<close> in \<^verbatim>\<open>data/data-loader.ts\<close>)\<close>

text \<open>The \<^verbatim>\<open>catch\<close> block: two draws for the coordinates of every processed record, then
  one draw for every label, \<^verbatim>\<open>Math.floor(Math.random() * 5)\<close>.\<close>

fun fallback_pca :: "nat \<Rightarrow> row list \<Rightarrow> rng \<Rightarrow> pcapoint list \<times> rng" where
  "fallback_pca i [] g = ([], g)"
| "fallback_pca i (d # ds) g =
     (\<lparr>pc1 = Fin (shd g), pc2 = Fin (shd (stl g)), index = Some i\<rparr>
      # fst (fallback_pca (Suc i) ds (stl (stl g))),
      snd (fallback_pca (Suc i) ds (stl (stl g))))"

fun fallback_clusters :: "nat \<Rightarrow> rng \<Rightarrow> int list" where
  "fallback_clusters 0 g = []"
| "fallback_clusters (Suc n) g = \<lfloor>shd g * 5\<rfloor> # fallback_clusters n (stl g)"

definition fallback :: "row list \<Rightarrow> rng \<Rightarrow> pcapoint list \<times> int list" where
  "fallback processedData g =
     (fst (fallback_pca 0 processedData g),
      fallback_clusters (length processedData) (snd (fallback_pca 0 processedData g)))"

text \<open>The \<^verbatim>\<open>try\<close>/\<^verbatim>\<open>catch\<close> statement around the two steps imported from
  \<^verbatim>\<open>lib/data-processing.ts\<close>. Clustering may fail to return (\<open>None\<close>). Nothing of the
  \<^verbatim>\<open>catch\<close> block but a console message tells its result from that of the \<^verbatim>\<open>try\<close>
  block.\<close>

definition pca_and_clustering ::
  "row list \<Rightarrow> string list \<Rightarrow> rng \<Rightarrow> (pcapoint list \<times> int list) option" where
  "pca_and_clustering processedData metrics g =
     (if take (min 8 (length metrics)) metrics \<noteq> [] then
        (case performPCA processedData (take (min 8 (length metrics)) metrics) g of
           Inl (e, g') \<Rightarrow> Some (fallback processedData g')
         | Inr (pcaResult, g') \<Rightarrow>
             if pcaResult \<noteq> [] then
               (case performClustering pcaResult (min 5 (length pcaResult)) g' of
                  None \<Rightarrow> None
                | Some (Inl (e, g'')) \<Rightarrow> Some (fallback processedData g'')
                | Some (Inr (assignments, g'')) \<Rightarrow> Some (pcaResult, map int assignments))
             else Some (pcaResult, []))
      else Some ([], []))"

definition standardizedData_of :: "(number \<Rightarrow> string) \<Rightarrow> row list \<Rightarrow> level \<Rightarrow> row list" where
  "standardizedData_of nts rawData lvl =
     map (standardize_row nts) (filter (keep_row lvl) (map convert_row rawData))"

definition processedData_of :: "(number \<Rightarrow> string) \<Rightarrow> row list \<Rightarrow> level \<Rightarrow> row list" where
  "processedData_of nts rawData lvl =
     (case lvl of
        County \<Rightarrow> standardizedData_of nts rawData lvl
      | State \<Rightarrow>
          aggregateByField nts (standardizedData_of nts rawData lvl) ''State Abbreviation''
            importantMetrics
      | Region \<Rightarrow>
          aggregateByField nts
            (map (\<lambda>d. put ''Region'' (Str (getRegionFromState nts (get d ''State Abbreviation''))) d)
                 (standardizedData_of nts rawData lvl))
            ''Region'' importantMetrics)"

definition available_metrics :: "row list \<Rightarrow> string list" where
  "available_metrics processedData =
     filter (\<lambda>metric. list_ex (\<lambda>d. get d metric \<noteq> Undefined \<and> get d metric \<noteq> Null) processedData)
            importantMetrics"

text \<open>What \<^verbatim>\<open>processData\<close> returns.\<close>

record pipeline_result =
  rawData :: "row list"
  processedData :: "row list"
  metrics :: "string list"
  healthBurdenIndex :: "(string \<times> number) list"
  pcaResult :: "pcapoint list"
  clusterAssignments :: "int list"

definition processData ::
  "(number \<Rightarrow> string) \<Rightarrow> row list \<Rightarrow> level \<Rightarrow> rng \<Rightarrow> pipeline_result option" where
  "processData nts raw lvl g =
     (case pca_and_clustering (processedData_of nts raw lvl)
             (available_metrics (processedData_of nts raw lvl)) g of
        None \<Rightarrow> None
      | Some pc \<Rightarrow>
          Some \<lparr>rawData = standardizedData_of nts raw lvl,
                processedData = processedData_of nts raw lvl,
                metrics = available_metrics (processedData_of nts raw lvl),
                healthBurdenIndex = burden_index nts lvl (processedData_of nts raw lvl),
                pcaResult = fst pc,
                clusterAssignments = snd pc\<rparr>)"

section \<open>The pipeline of \<^verbatim>\<open>lib/data-processing.ts\<close>\<close>

text \<open>The module has a \<^verbatim>\<open>processData\<close> and an \<^verbatim>\<open>aggregateByField\<close> of its own: the filter
  reads the standard field names only, an empty filtered set throws, and every column of
  the first row but the grouping field is aggregated.\<close>

definition js_keys :: "row \<Rightarrow> string list" where
  "js_keys r = map fst (js_entries r)"

definition aggregate_group_dataProcessing :: "string \<Rightarrow> string list \<Rightarrow> string \<times> row list \<Rightarrow> row" where
  "aggregate_group_dataProcessing field columns e =
     put (field @ ''Count'') (Num (Fin (real (length (snd e)))))
       (foldl (\<lambda>result col. if col = field then result else agg_metric (snd e) result col)
              [(field, Str (fst e))] columns)"

definition aggregateByField_dataProcessing ::
  "(number \<Rightarrow> string) \<Rightarrow> row list \<Rightarrow> string \<Rightarrow> string list \<Rightarrow> row list" where
  "aggregateByField_dataProcessing nts data field columns =
     map (aggregate_group_dataProcessing field columns) (js_entries (group_rows nts field data))"

definition keep_row_dataProcessing :: "level \<Rightarrow> row \<Rightarrow> bool" where
  "keep_row_dataProcessing lvl d =
     (case lvl of
        County \<Rightarrow> truthy (get d ''FIPS'') \<and> truthy (get d ''Name'')
                  \<and> truthy (get d ''State Abbreviation'')
      | _ \<Rightarrow> truthy (get d ''State Abbreviation''))"

definition processData_dataProcessing ::
  "(number \<Rightarrow> string) \<Rightarrow> row list \<Rightarrow> level \<Rightarrow> error + row list \<times> string list" where
  "processData_dataProcessing nts data lvl =
     (case filter (keep_row_dataProcessing lvl) data of
        [] \<Rightarrow> Inl NoValidRows
      | d0 # ds \<Rightarrow>
          (let processed =
                 (case lvl of
                    County \<Rightarrow> d0 # ds
                  | State \<Rightarrow>
                      aggregateByField_dataProcessing nts (d0 # ds) ''State Abbreviation''
                        (js_keys d0)
                  | Region \<Rightarrow>
                      aggregateByField_dataProcessing nts
                        (map (\<lambda>d. put ''Region''
                                     (Str (getRegionFromState nts (get d ''State Abbreviation''))) d)
                             (d0 # ds))
                        ''Region'' (js_keys d0 @ [''Region'']))
           in Inr (processed, (case processed of [] \<Rightarrow> [] | p # _ \<Rightarrow> js_keys p))))"

section \<open>Correlation engine (\<^verbatim>\<open>components/correlation-matrix.tsx\<close>)\<close>

text \<open>\<^verbatim>\<open>typeof v === "string" ? Number.parseFloat(v) : v\<close>\<close>

definition corr_value :: "jsval \<Rightarrow> jsval" where
  "corr_value v = (case v of Str s \<Rightarrow> Num (js_parseFloat s) | _ \<Rightarrow> v)"

definition valid_pair :: "jsval \<times> jsval \<Rightarrow> bool" where
  "valid_pair d =
     (fst d \<noteq> Undefined \<and> snd d \<noteq> Undefined \<and> \<not> isNaN (fst d) \<and> \<not> isNaN (snd d)
      \<and> fst d \<noteq> Null \<and> snd d \<noteq> Null)"

definition corr_pairs :: "row list \<Rightarrow> string \<Rightarrow> string \<Rightarrow> (number \<times> number) list" where
  "corr_pairs data xMetric yMetric =
     map (\<lambda>d. (to_number (fst d), to_number (snd d)))
       (filter valid_pair
          (map (\<lambda>d. (corr_value (get d xMetric), corr_value (get d yMetric))) data))"

text \<open>The three sums of the loop: numerator, \<^verbatim>\<open>xDenominator\<close>, \<^verbatim>\<open>yDenominator\<close>.\<close>

definition corr_sums ::
  "(number \<times> number) list \<Rightarrow> number \<Rightarrow> number \<Rightarrow> number \<times> number \<times> number" where
  "corr_sums pairs xMean yMean =
     foldl (\<lambda>(numerator, xDenominator, yDenominator) pair.
              (nadd numerator (nmul (nsub (fst pair) xMean) (nsub (snd pair) yMean)),
               nadd xDenominator (nmul (nsub (fst pair) xMean) (nsub (fst pair) xMean)),
               nadd yDenominator (nmul (nsub (snd pair) yMean) (nsub (snd pair) yMean))))
           (Fin 0, Fin 0, Fin 0) pairs"

definition correlation_of_pairs :: "(number \<times> number) list \<Rightarrow> number" where
  "correlation_of_pairs pairs =
     (if length pairs < 2 then NaN
      else
        (let xMean = ndiv (foldl (\<lambda>sum d. nadd sum (fst d)) (Fin 0) pairs)
                          (Fin (real (length pairs)));
             yMean = ndiv (foldl (\<lambda>sum d. nadd sum (snd d)) (Fin 0) pairs)
                          (Fin (real (length pairs)));
             s = corr_sums pairs xMean yMean
         in if fst (snd s) = Fin 0 \<or> snd (snd s) = Fin 0 then NaN
            else ndiv (fst s) (nsqrt (nmul (fst (snd s)) (snd (snd s))))))"

definition calculateCorrelation :: "row list \<Rightarrow> string \<Rightarrow> string \<Rightarrow> number" where
  "calculateCorrelation data xMetric yMetric =
     correlation_of_pairs (corr_pairs data xMetric yMetric)"

section \<open>A number printer for the examples\<close>

text \<open>The decimal text of a natural number, and a printer that is \<^verbatim>\<open>Number::toString\<close> on
  the integers and the special values. The examples below instantiate \<open>nts\<close> with it and
  print integers only; on a fraction it prints the integer part.\<close>

fun nat_digits :: "nat \<Rightarrow> string" where
  "nat_digits n =
     (if n < 10 then [''0123456789'' ! n]
      else nat_digits (n div 10) @ [''0123456789'' ! (n mod 10)])"

declare nat_digits.simps [simp del]

definition print_number :: "number \<Rightarrow> string" where
  "print_number n =
     (case n of
        NaN \<Rightarrow> ''NaN''
      | PInf \<Rightarrow> ''Infinity''
      | NInf \<Rightarrow> ''-Infinity''
      | Fin a \<Rightarrow> (if a \<le> - 1 then CHR ''-'' # nat_digits (nat \<lfloor>- a\<rfloor>) else nat_digits (nat \<lfloor>a\<rfloor>)))"

section \<open>Inputs of the examples\<close>




text \<open>CSV files of one state: three rows with the values 10, 20 and a blank cell, and two
  rows with blank cells only.\<close>

definition state_csv :: string where
  "state_csv = ''State Abbreviation,Adult Obesity raw value\<newline>AL,10\<newline>AL,20\<newline>AL,\<newline>''"

definition blank_state_csv :: string where
  "blank_state_csv = ''State Abbreviation,Adult Obesity raw value\<newline>AK,\<newline>AK,\<newline>''"

text \<open>CSV files of three counties in which one metric, and two metrics, are constant with
  the value 0.1.\<close>

definition constant_column_csv :: string where
  "constant_column_csv =
     ''FIPS,Name,State Abbreviation,Adult Obesity raw value\<newline>'' @
     ''01001,A,AL,0.1\<newline>01003,B,AL,0.1\<newline>01005,C,AL,0.1\<newline>''"

definition constant_columns_csv :: string where
  "constant_columns_csv =
     ''FIPS,Name,State Abbreviation,Adult Obesity raw value,Food Insecurity raw value\<newline>'' @
     ''01001,A,AL,0.1,0.1\<newline>01003,B,AL,0.1,0.1\<newline>01005,C,AL,0.1,0.1\<newline>''"

text \<open>The processed records of these files at county level.\<close>

definition constant_column_counties :: "row list" where
  "constant_column_counties =
     processedData_of print_number (parseCSV constant_column_csv) County"

definition constant_columns_counties :: "row list" where
  "constant_columns_counties =
     processedData_of print_number (parseCSV constant_columns_csv) County"

section \<open>Properties of rounding\<close>

lemma pow2_powr: "pow2 e = 2 powr (of_int e)"
  by (simp add: pow2_def powr_real_of_int field_simps)

lemma pow2_pos: "0 < pow2 e"
  by (simp add: pow2_powr)

lemma pow2_add: "pow2 (a + b) = pow2 a * pow2 b"
  by (simp add: pow2_powr powr_add)

lemma pow2_diff: "pow2 (a - b) = pow2 a / pow2 b"
  by (simp add: pow2_powr powr_diff)

lemma pow2_nonneg_int: "0 \<le> q \<Longrightarrow> pow2 q = of_int (2 ^ nat q)"
  by (simp add: pow2_def)

lemma pow2_mono: "a \<le> b \<Longrightarrow> pow2 a \<le> pow2 b"
  by (simp add: pow2_powr)

lemma floor_log2:
  assumes "pow2 k \<le> a" "a < pow2 (k + 1)"
  shows "\<lfloor>log 2 a\<rfloor> = k"
proof -
  have "0 < a" using assms(1) pow2_pos[of k] by linarith
  then show ?thesis using assms
    by (simp add: floor_log_eq_powr_iff pow2_powr)
qed

lemma round_even_of_int: "round_even (of_int n) = n"
  by (simp add: round_even_def)

text \<open>How a rounding is computed: \<open>k\<close> is the binary exponent of \<open>x\<close> and \<open>m\<close> the
  significand of the result, as an integer.\<close>

lemma rnd_eq:
  assumes "pow2 k \<le> \<bar>x\<bar>" "\<bar>x\<bar> < pow2 (k + 1)"
    and "e = max (k - 52) (- 1074)"
    and "round_even (\<bar>x\<bar> / pow2 e) = m"
    and "of_int m * pow2 e < (2::real) ^ 1024"
  shows "rnd x = Fin (sgn x * (of_int m * pow2 e))"
proof -
  have "x \<noteq> 0" using assms(1) pow2_pos[of k] by auto
  moreover have "ulp_exp x = e"
    using floor_log2[OF assms(1,2)] assms(3) by (simp add: ulp_exp_def)
  ultimately show ?thesis using assms(4,5) by (simp add: rnd_def Let_def)
qed

text \<open>Rounding leaves a double as it is.\<close>

lemma rnd_exact:
  assumes "x = of_int m * pow2 q" "\<bar>m\<bar> < 2 ^ 53" "- 1074 \<le> q" "q \<le> 971"
  shows "rnd x = Fin x"
proof (cases "m = 0")
  case True
  then show ?thesis using assms(1) by (simp add: rnd_def)
next
  case False
  define a where "a = \<bar>x\<bar>"
  have a: "a = of_int \<bar>m\<bar> * pow2 q"
    using pow2_pos[of q] by (simp add: a_def assms(1) abs_mult)
  have m1: "1 \<le> \<bar>m\<bar>" using False by linarith
  have apos: "0 < a" using m1 pow2_pos[of q] by (simp add: a)
  have "a < 2 ^ 53 * pow2 q"
    unfolding a using assms(2) pow2_pos[of q] by (simp add: mult_strict_right_mono)
  also have "\<dots> = pow2 (53 + q)"
    using pow2_add[of 53 q] by (simp add: pow2_def)
  finally have lt: "a < pow2 (53 + q)" .
  have "log 2 a < log 2 (pow2 (53 + q))"
    using lt apos by simp
  also have "\<dots> = of_int (53 + q)" by (simp add: pow2_powr)
  finally have "\<lfloor>log 2 a\<rfloor> < 53 + q" by (simp add: floor_less_iff)
  then have e: "ulp_exp x \<le> q" using assms(3) by (simp add: ulp_exp_def a_def)
  define e where "e = ulp_exp x"
  have eq: "0 \<le> q - e" using e by (simp add: e_def)
  have "a / pow2 e = of_int \<bar>m\<bar> * pow2 (q - e)" by (simp add: a pow2_diff)
  also have "\<dots> = of_int (\<bar>m\<bar> * 2 ^ nat (q - e))" by (simp add: pow2_nonneg_int[OF eq])
  finally have r: "round_even (a / pow2 e) = \<bar>m\<bar> * 2 ^ nat (q - e)"
    by (simp only: round_even_of_int)
  have "pow2 (q - e) * pow2 e = pow2 q"
    using pow2_add[of "q - e" e] by simp
  then have y: "of_int (round_even (a / pow2 e)) * pow2 e = a"
    unfolding r using pow2_nonneg_int[OF eq] by (simp add: a)
  have "a < 2 ^ 53 * pow2 q" by fact
  also have "\<dots> \<le> 2 ^ 53 * pow2 971" using pow2_mono[OF assms(4)] by simp
  also have "\<dots> = 2 ^ 1024" by (simp add: pow2_def)
  finally have small: "\<not> 2 ^ 1024 \<le> a" by simp
  have "x \<noteq> 0" using apos by (simp add: a_def)
  then show ?thesis
    using y small by (simp add: rnd_def Let_def flip: e_def a_def) (simp add: a_def mult_sgn_abs)
qed

lemma rnd_of_int: "\<bar>i\<bar> < 2 ^ 53 \<Longrightarrow> rnd (of_int i) = Fin (of_int i)"
  using rnd_exact[of "of_int i" i 0] by (simp add: pow2_def)

lemma rnd_0 [simp]: "rnd 0 = Fin 0"
  by (simp add: rnd_def)

lemma rnd_1 [simp]: "rnd 1 = Fin 1"
  using rnd_of_int[of 1] by simp

lemma rnd_numeral [simp]: "numeral n < (2::int) ^ 53 \<Longrightarrow> rnd (numeral n) = Fin (numeral n)"
  using rnd_of_int[of "numeral n"] by simp

lemma rnd_neg_numeral [simp]:
  "numeral n < (2::int) ^ 53 \<Longrightarrow> rnd (- numeral n) = Fin (- numeral n)"
  using rnd_of_int[of "- numeral n"] by simp

lemma rnd_neg_1 [simp]: "rnd (- 1) = Fin (- 1)"
  using rnd_of_int[of "- 1"] by simp

text \<open>Rounding moves a value by at most half the distance between the doubles next to
  it.\<close>

lemma round_even_near: "\<bar>of_int (round_even y) - y\<bar> \<le> 1 / 2"
  unfolding round_even_def Let_def by (auto simp: abs_le_iff)

lemma rnd_near:
  assumes "\<bar>x\<bar> < pow2 (k + 1)" "k \<le> 1022"
  shows "\<exists>y. rnd x = Fin y \<and> \<bar>y - x\<bar> \<le> pow2 (max (k - 52) (- 1074)) / 2"
proof (cases "x = 0")
  case True
  then show ?thesis using pow2_pos[of "max (k - 52) (- 1074)"] by (simp add: rnd_def)
next
  case False
  define a where "a = \<bar>x\<bar>"
  define e where "e = ulp_exp x"
  define E where "E = max (k - 52) (- 1074)"
  define y where "y = of_int (round_even (a / pow2 e)) * pow2 e"
  have apos: "0 < a" using False by (simp add: a_def)
  have "log 2 a < log 2 (pow2 (k + 1))"
    using assms(1) apos pow2_pos[of "k + 1"] by (simp add: a_def)
  also have "\<dots> = of_int (k + 1)" by (simp add: pow2_powr)
  finally have "\<lfloor>log 2 a\<rfloor> < k + 1" by (simp only: floor_less_iff)
  then have "\<lfloor>log 2 a\<rfloor> \<le> k" by simp
  then have eE: "e \<le> E" by (simp add: e_def E_def ulp_exp_def a_def)
  have "\<bar>of_int (round_even (a / pow2 e)) - a / pow2 e\<bar> * pow2 e \<le> 1 / 2 * pow2 e"
    by (rule mult_right_mono[OF round_even_near]) (simp add: less_imp_le[OF pow2_pos])
  moreover have "\<bar>of_int (round_even (a / pow2 e)) - a / pow2 e\<bar> * pow2 e
        = \<bar>(of_int (round_even (a / pow2 e)) - a / pow2 e) * pow2 e\<bar>"
    using pow2_pos[of e] by (simp add: abs_mult)
  moreover have "(of_int (round_even (a / pow2 e)) - a / pow2 e) * pow2 e = y - a"
    using pow2_pos[of e] by (simp add: y_def left_diff_distrib)
  ultimately have near: "\<bar>y - a\<bar> \<le> pow2 e / 2" by simp
  also have "\<dots> \<le> pow2 E / 2" using pow2_mono[OF eE] by simp
  finally have nearE: "\<bar>y - a\<bar> \<le> pow2 E / 2" .
  have "E \<le> 970" using assms(2) by (simp add: E_def)
  then have "pow2 E \<le> pow2 970" by (rule pow2_mono)
  moreover have "pow2 (k + 1) \<le> pow2 1023" using assms(2) by (intro pow2_mono) simp
  moreover have "a < pow2 (k + 1)" using assms(1) by (simp add: a_def)
  ultimately have "y < pow2 1023 + pow2 970 / 2" using nearE by linarith
  also have "\<dots> < 2 ^ 1024" by (simp add: pow2_def)
  finally have small: "\<not> 2 ^ 1024 \<le> y" by simp
  have r: "rnd x = Fin (sgn x * y)"
    using False small by (simp add: rnd_def Let_def flip: e_def a_def y_def)
  have "\<bar>sgn x * y - x\<bar> = \<bar>sgn x * (y - a)\<bar>"
    by (simp add: a_def right_diff_distrib mult_sgn_abs)
  also have "\<dots> = \<bar>y - a\<bar>" using False by (simp add: abs_mult abs_sgn_eq)
  finally show ?thesis using r nearE by (auto simp: E_def)
qed

lemma pow2_less: "pow2 a < pow2 b \<Longrightarrow> a < b"
  by (simp add: pow2_powr)

lemma round_even_nonneg: "0 \<le> y \<Longrightarrow> 0 \<le> round_even y"
  unfolding round_even_def Let_def by (auto simp: add_nonneg_nonneg)

lemma rnd_nonneg:
  assumes "0 \<le> x" "rnd x = Fin y"
  shows "0 \<le> y"
proof (cases "x = 0")
  case True
  then show ?thesis using assms(2) by (simp add: rnd_def)
next
  case False
  then have "0 < x" using assms(1) by simp
  have "0 \<le> round_even (\<bar>x\<bar> / pow2 (ulp_exp x))"
    by (rule round_even_nonneg) (simp add: less_imp_le[OF pow2_pos])
  then have "0 \<le> of_int (round_even (\<bar>x\<bar> / pow2 (ulp_exp x))) * pow2 (ulp_exp x)"
    using pow2_pos[of "ulp_exp x"] by simp
  then show ?thesis
    using assms(2) \<open>0 < x\<close> by (simp add: rnd_def Let_def split: if_splits)
qed

text \<open>\<^verbatim>\<open>Math.floor(Math.random() * n)\<close>: a draw is a double below 1, so it is at most
  \<open>1 - 2\<^sup>-\<^sup>5\<^sup>3\<close>, and its rounded product with a count \<open>n\<close> is below \<open>n\<close>, as the exact
  product is.\<close>

lemma rnd_draw_below:
  assumes "0 \<le> u" "u \<le> 1 - 1 / 2 ^ 53" "1 \<le> n" "n \<le> 2 ^ 53"
  shows "\<exists>y. rnd (u * n) = Fin y \<and> 0 \<le> y \<and> y < n"
proof (cases "u * n = 0")
  case True
  then show ?thesis using assms(3) by simp
next
  case False
  define x where "x = u * n"
  have xpos: "0 < x" using False assms(1,3) by (simp add: x_def less_le)
  have xn: "x \<le> n * (1 - 1 / 2 ^ 53)"
    unfolding x_def using assms(2,3) by (simp add: mult.commute mult_left_mono)
  define k where "k = \<lfloor>log 2 x\<rfloor>"
  have kx: "pow2 k \<le> x" "x < pow2 (k + 1)"
    using floor_log_eq_powr_iff[of x 2 k] xpos by (simp_all add: k_def pow2_powr)
  have "x < 2 ^ 53" using xn assms(3,4) by (simp add: algebra_simps)
  then have "x < pow2 53" by (simp add: pow2_def)
  then have "pow2 k < pow2 53" using kx(1) by linarith
  then have "k < 53" by (rule pow2_less)
  then have k1022: "k \<le> 1022" by simp
  have "\<bar>x\<bar> < pow2 (k + 1)" using kx(2) xpos by simp
  from rnd_near[OF this k1022]
  obtain y where y: "rnd x = Fin y" and e: "\<bar>y - x\<bar> \<le> pow2 (max (k - 52) (- 1074)) / 2"
    by auto
  have y0: "0 \<le> y" using rnd_nonneg[OF less_imp_le[OF xpos] y] .
  have "y < n"
  proof (cases "- 1074 \<le> k - 52")
    case True
    then have m: "max (k - 52) (- 1074) = k - 52" by simp
    have p52: "pow2 52 = 2 ^ 52" by (simp add: pow2_def)
    have "pow2 (k - 52) = pow2 k / 2 ^ 52" by (simp only: pow2_diff p52)
    then have "\<bar>y - x\<bar> \<le> pow2 k / 2 ^ 52 / 2" using e unfolding m by simp
    moreover have "pow2 k / 2 ^ 52 / 2 \<le> x / 2 ^ 53" using kx(1) by simp
    ultimately have "\<bar>y - x\<bar> \<le> x / 2 ^ 53" by linarith
    then have "y \<le> x + x / 2 ^ 53" by linarith
    also have "\<dots> = x * (1 + 1 / 2 ^ 53)" by (simp add: algebra_simps)
    also have "\<dots> \<le> n * (1 - 1 / 2 ^ 53) * (1 + 1 / 2 ^ 53)"
      using xn by (simp add: mult_right_mono)
    also have "\<dots> = n * (1 - 1 / 2 ^ 106)" by (simp add: algebra_simps)
    also have "\<dots> < n" using assms(3) by simp
    finally show ?thesis .
  next
    case False
    then have m: "max (k - 52) (- 1074) = - 1074" by simp
    have "k + 1 \<le> - 1022" using False by simp
    then have "pow2 (k + 1) \<le> pow2 (- 1022)" by (rule pow2_mono)
    then have "x < pow2 (- 1022)" using kx(2) by simp
    moreover have "pow2 (- 1022) \<le> 1 / 4" "pow2 (- 1074) \<le> 1 / 4"
      by (simp_all add: pow2_def)
    ultimately have "y < 1" using e unfolding m by linarith
    then show ?thesis using assms(3) by simp
  qed
  with y y0 show ?thesis by (auto simp: x_def)
qed

section \<open>Properties of the clustering engine\<close>

lemma nearest_centroid_one: "nearest_centroid p centroids (Suc 0) = 0"
  by (simp add: nearest_centroid_def)

lemma assign_points_zero_aux:
  "set is \<subseteq> {0..<n} \<Longrightarrow>
   foldl (\<lambda>(as, changed) i.
              if as ! i \<noteq> nearest_centroid (points ! i) centroids (Suc 0)
              then (as[i := nearest_centroid (points ! i) centroids (Suc 0)], True)
              else (as, changed))
           (replicate n 0, False) is = (replicate n 0, False)"
  by (induction "is") (simp_all add: nearest_centroid_one)

lemma assign_points_one:
  "assign_points points (Suc 0) centroids (replicate (length points) 0) = (replicate (length points) 0, False)"
  unfolding assign_points_def by (rule assign_points_zero_aux) simp

lemma accumulate_ok:
  "\<forall>i \<in> set is. assignments ! i < length (fst st) \<Longrightarrow>
   \<exists>r. accumulate points assignments st is = Inr r"
proof (induction "is" arbitrary: st)
  case Nil
  then show ?case by (cases st) simp
next
  case (Cons i "is")
  obtain nc cnt where st: "st = (nc, cnt)" by (cases st)
  from Cons.prems st have lt: "assignments ! i < length nc" by simp
  let ?st' = "(nc[assignments ! i := add_coords (nc ! (assignments ! i)) (points ! i)],
           cnt[assignments ! i := Suc (cnt ! (assignments ! i))])"
  have "\<forall>j \<in> set is. assignments ! j < length (fst ?st')" using Cons.prems st by simp
  from Cons.IH[OF this] show ?case using st lt by simp
qed

lemma update_centroids_ok:
  "\<forall>i < length points. assignments ! i < k \<Longrightarrow> \<exists>cs. update_centroids points k centroids assignments = Inr cs"
proof -
  assume a: "\<forall>i < length points. assignments ! i < k"
  have "\<exists>r. accumulate points assignments
             (replicate k (replicate (length (points ! 0)) (Fin 0)), replicate k 0)
             [0..<length points] = Inr r"
    by (rule accumulate_ok) (use a in simp)
  then show ?thesis by (auto simp: update_centroids_def split: prod.splits)
qed

lemma kmeans_loop_one:
  "\<exists>cs. kmeans_loop points (Suc 0) centroids (replicate (length points) 0) True 0 = Inr (replicate (length points) 0, cs)"
proof -
  obtain cs where u: "update_centroids points (Suc 0) centroids (replicate (length points) 0) = Inr cs"
    using update_centroids_ok[of points "replicate (length points) 0" "Suc 0" centroids] by auto
  have "kmeans_loop points (Suc 0) centroids (replicate (length points) 0) True 0
        = kmeans_loop points (Suc 0) cs (replicate (length points) 0) False (Suc 0)"
    by (subst kmeans_loop.simps) (simp add: assign_points_one u)
  also have "\<dots> = Inr (replicate (length points) 0, cs)"
    by (subst kmeans_loop.simps) simp
  finally show ?thesis by blast
qed

lemma init_centroids_one:
  assumes "points \<noteq> []" "0 \<le> shd g" "shd g < 1"
  shows "init_centroids points (Suc 0) [] [] g
         = Some (Inr ([points ! nat \<lfloor>shd g * real (length points)\<rfloor>], stl g))"
proof -
  have n: "0 < real (length points)" using assms(1) by simp
  have lo: "0 \<le> shd g * real (length points)" using assms(2) by simp
  have hi: "shd g * real (length points) < real (length points)" using assms(3) n by simp
  have hi': "\<lfloor>shd g * real (length points)\<rfloor> < int (length points)"
    using hi by (simp add: floor_less_iff)
  show ?thesis
    apply (subst init_centroids.simps)
    apply (simp add: lo hi')
    apply (subst init_centroids.simps)
    apply simp
    done
qed

text \<open>
  Claim C8. \<^verbatim>\<open>kMeansClustering\<close> with \<open>k = 1\<close> on a non-empty point list returns (the
  initialisation loop ends after one draw, the main loop after one pass) and gives every
  point the label 0; on the empty point list it returns the empty assignment for every
  \<open>k\<close>, with no draw and no error. The draw lies in \<open>[0, 1)\<close>, as \<^verbatim>\<open>Math.random\<close>
  guarantees.
\<close>

theorem kMeansClustering_k1_and_empty:
  "(\<forall>points g. points \<noteq> [] \<and> 0 \<le> shd g \<and> shd g < 1 \<longrightarrow>
      (\<exists>centroids. kMeansClustering points 1 g
          = Some (Inr ((replicate (length points) 0, centroids), stl g))))
   \<and> (\<forall>k g. kMeansClustering [] k g = Some (Inr (([], []), g)))"
proof (intro conjI allI impI)
  fix points :: "point list" and g :: rng
  assume a: "points \<noteq> [] \<and> 0 \<le> shd g \<and> shd g < 1"
  obtain cs where l: "kmeans_loop points (Suc 0) [points ! nat \<lfloor>shd g * real (length points)\<rfloor>] (replicate (length points) 0) True 0 = Inr (replicate (length points) 0, cs)"
    using kmeans_loop_one by blast
  show "\<exists>centroids. kMeansClustering points 1 g
          = Some (Inr ((replicate (length points) 0, centroids), stl g))"
    using a l by (auto simp: kMeansClustering_def init_centroids_one)
next
  fix k g show "kMeansClustering [] k g = Some (Inr (([], []), g))"
    by (simp add: kMeansClustering_def)
qed

theorem kMeansClustering_k1_and_empty_witness:
  "[[Fin 1, Fin 2], [Fin 3, Fin 4], [Fin 0, Fin 0]] \<noteq> []
   \<and> 0 \<le> shd (sconst (1/2) :: rng) \<and> shd (sconst (1/2) :: rng) < 1
   \<and> (\<exists>centroids. kMeansClustering [[Fin 1, Fin 2], [Fin 3, Fin 4], [Fin 0, Fin 0]] 1 (sconst (1/2))
          = Some (Inr (([0, 0, 0], centroids), sconst (1/2))))"
proof -
  have h: "[[Fin 1, Fin 2], [Fin 3, Fin 4], [Fin 0, Fin 0]] \<noteq> []
           \<and> 0 \<le> shd (sconst (1/2) :: rng) \<and> shd (sconst (1/2) :: rng) < 1"
    by simp
  from kMeansClustering_k1_and_empty h
  have "\<exists>centroids. kMeansClustering [[Fin 1, Fin 2], [Fin 3, Fin 4], [Fin 0, Fin 0]] 1 (sconst (1/2))
          = Some (Inr ((replicate (length [[Fin 1, Fin 2], [Fin 3, Fin 4], [Fin 0, Fin 0]]) 0, centroids),
                       stl (sconst (1/2))))"
    by blast
  then show ?thesis by (simp add: numeral_3_eq_3)
qed

section \<open>Properties of the orchestrator on empty input\<close>

lemma processedData_of_Nil: "processedData_of nts [] lvl = []"
  by (cases lvl)
     (simp_all add: processedData_of_def standardizedData_of_def aggregateByField_def
        group_rows_def js_entries_def)

lemma available_metrics_Nil: "available_metrics [] = []"
  by (simp add: available_metrics_def)

text \<open>The \<^verbatim>\<open>processData\<close> of \<^verbatim>\<open>lib/data-processing.ts\<close> throws when no row passes its
  filter.\<close>

lemma processData_dataProcessing_throws:
  "filter (keep_row_dataProcessing lvl) data = []
   \<Longrightarrow> processData_dataProcessing nts data lvl = Inl NoValidRows"
  by (simp add: processData_dataProcessing_def)

text \<open>
  Claim C1. The claim asks the orchestrator to fail with \<open>NoValidRows\<close> when no record
  is left after standardization and filtering. The \<^verbatim>\<open>processData\<close> of
  \<^verbatim>\<open>data/data-loader.ts\<close>, which builds the analytical bundle, has no such check: on the
  empty input array, at every aggregation level, it returns normally, and what it
  returns is the bundle with every component empty.
\<close>

theorem processData_empty_input:
  "processData nts [] lvl g =
     Some \<lparr>rawData = [], processedData = [], metrics = [], healthBurdenIndex = [],
           pcaResult = [], clusterAssignments = []\<rparr>"
  by (simp add: processData_def processedData_of_Nil available_metrics_Nil
      pca_and_clustering_def standardizedData_of_def burden_index_def)

section \<open>Properties of the field standardizer\<close>

lemmas parse_defs = js_parseFloat_def js_Number_def parse_decimal_def parse_exponent_def
  strip_sign_def scale10_def digits_to_nat_def digit_val_def is_digit_def is_ws_def trim_def
  parse_radix_def Let_def

text \<open>
  Claim C2. The claim asks that a string which parses only partially as a number, such
  as \<^verbatim>\<open>"12abc"\<close>, stays a string. The first pass of \<^verbatim>\<open>processData\<close> converts with
  \<^verbatim>\<open>Number.parseFloat\<close>, which reads the numeric prefix: the cell becomes the number 12.
  \<^verbatim>\<open>parseCSV\<close>, which converts with \<^verbatim>\<open>Number\<close>, leaves the same cell a string.
\<close>

theorem convert_row_partial_parse:
  "convert_row [(''FIPS'', Str ''01001''), (''Name'', Str ''A''), (''State Abbreviation'', Str ''AL''),
                (''Adult Obesity raw value'', Str ''12abc'')]
   = [(''FIPS'', Str ''01001''), (''Name'', Str ''A''), (''State Abbreviation'', Str ''AL''),
      (''Adult Obesity raw value'', Num (Fin 12))]
   \<and> parse_cell (Some ''12abc'') = Str ''12abc''"
  by (simp add: convert_row_def convert_value_def parse_cell_def parse_defs)

lemma get_put: "get (put k v r) k' = (if k' = k then v else get r k')"
  by (simp add: get_def put_def update_conv')

lemma get_convert_row: "get (convert_row r) k = convert_value k (get r k)"
proof -
  have "map_of (map (\<lambda>(key, v). (key, convert_value key v)) r) k
        = map_option (convert_value k) (map_of r k)"
    by (induction r) auto
  then show ?thesis
    by (cases "map_of r k") (simp_all add: get_def convert_row_def convert_value_def)
qed

lemma convert_value_id_fields:
  "convert_value ''FIPS'' v = v" "convert_value ''Name'' v = v"
  "convert_value ''State Abbreviation'' v = v"
  by (simp_all add: convert_value_def)

lemma truthy_js_or: "truthy (js_or a b) = (truthy a \<or> truthy b)"
  by (simp add: js_or_def)

lemma length_padStart: "length (padStart n c s) = max n (length s)"
  by (simp add: padStart_def)

lemma standardize_row_county:
  assumes "keep_row County r"
  shows "get (standardize_row nts r) ''FIPS'' = Str (padStart 5 CHR ''0'' (to_string nts (get r ''FIPS'')))"
    and "truthy (get (standardize_row nts r) ''Name'')"
    and "truthy (get (standardize_row nts r) ''State Abbreviation'')"
  using assms
  by (auto simp: keep_row_def standardize_row_def standardize_state_def standardize_name_def
      standardize_fips_def get_put truthy_js_or Let_def)

text \<open>
  Claim C9, as the code has it. Every county-level record that survives standardization
  and filtering comes from a raw record with a truthy FIPS; its FIPS is the text of
  that value, padded on the left with zeros to five characters. \<^verbatim>\<open>padStart\<close> never
  shortens: the FIPS has at least five characters, and exactly five when the text had at
  most five. Name and State Abbreviation are truthy (not empty).
\<close>

theorem county_rows_identified:
  assumes "r \<in> set (standardizedData_of nts raw County)"
  shows "\<exists>r0 \<in> set raw.
           get r ''FIPS'' = Str (padStart 5 CHR ''0'' (to_string nts (get r0 ''FIPS'')))
           \<and> truthy (get r0 ''FIPS'')
           \<and> 5 \<le> length (padStart 5 CHR ''0'' (to_string nts (get r0 ''FIPS'')))
           \<and> (length (to_string nts (get r0 ''FIPS'')) \<le> 5
                \<longrightarrow> length (padStart 5 CHR ''0'' (to_string nts (get r0 ''FIPS''))) = 5)
           \<and> truthy (get r ''Name'')
           \<and> truthy (get r ''State Abbreviation'')"
proof -
  from assms obtain r0 where r0: "r0 \<in> set raw" "keep_row County (convert_row r0)"
      "r = standardize_row nts (convert_row r0)"
    by (auto simp: standardizedData_of_def)
  have f: "get (convert_row r0) ''FIPS'' = get r0 ''FIPS''"
    by (simp add: get_convert_row convert_value_id_fields)
  have t: "truthy (get r0 ''FIPS'')" using r0(2) f by (simp add: keep_row_def)
  show ?thesis
    using r0(1) standardize_row_county[OF r0(2), of nts] f t
    by (auto simp: r0(3) length_padStart intro!: bexI[of _ r0])
qed

theorem county_rows_identified_witness:
  "[(''FIPS'', Str ''01001''), (''County'', Str ''A''), (''state'', Str ''AL''),
    (''Name'', Str ''A''), (''State Abbreviation'', Str ''AL'')]
     \<in> set (standardizedData_of print_number
               [[(''FIPS'', Str ''1001''), (''County'', Str ''A''), (''state'', Str ''AL'')]] County)
   \<and> get [(''FIPS'', Str ''01001''), (''County'', Str ''A''), (''state'', Str ''AL''),
           (''Name'', Str ''A''), (''State Abbreviation'', Str ''AL'')] ''FIPS'' = Str ''01001''
   \<and> length ''01001'' = 5
   \<and> truthy (get [(''FIPS'', Str ''01001''), (''County'', Str ''A''), (''state'', Str ''AL''),
                   (''Name'', Str ''A''), (''State Abbreviation'', Str ''AL'')] ''Name'')
   \<and> truthy (get [(''FIPS'', Str ''01001''), (''County'', Str ''A''), (''state'', Str ''AL''),
                   (''Name'', Str ''A''), (''State Abbreviation'', Str ''AL'')] ''State Abbreviation'')"
proof -
  have eq: "standardizedData_of print_number
               [[(''FIPS'', Str ''1001''), (''County'', Str ''A''), (''state'', Str ''AL'')]] County
        = [[(''FIPS'', Str ''01001''), (''County'', Str ''A''), (''state'', Str ''AL''),
              (''Name'', Str ''A''), (''State Abbreviation'', Str ''AL'')]]"
    by (simp add: standardizedData_of_def convert_row_def convert_value_def keep_row_def get_def
        standardize_row_def standardize_state_def standardize_name_def standardize_fips_def
        put_def padStart_def js_or_def parse_defs)
  have mem: "[(''FIPS'', Str ''01001''), (''County'', Str ''A''), (''state'', Str ''AL''),
              (''Name'', Str ''A''), (''State Abbreviation'', Str ''AL'')]
     \<in> set (standardizedData_of print_number
               [[(''FIPS'', Str ''1001''), (''County'', Str ''A''), (''state'', Str ''AL'')]] County)"
    unfolding eq by simp
  from county_rows_identified[OF mem] mem show ?thesis
    by (simp add: padStart_def get_def)
qed

text \<open>The claim as stated asks for exactly five characters: a six-character FIPS
  survives as it is.\<close>

theorem county_fips_longer_than_five:
  "map (\<lambda>r. get r ''FIPS'')
     (standardizedData_of print_number
        [[(''FIPS'', Str ''010010''), (''Name'', Str ''A''), (''State Abbreviation'', Str ''AL'')]]
        County)
   = [Str ''010010''] \<and> length ''010010'' = 6"
  by (simp add: standardizedData_of_def convert_row_def convert_value_def keep_row_def get_def
      standardize_row_def standardize_state_def standardize_name_def standardize_fips_def
      put_def padStart_def)

section \<open>Properties of the aggregator\<close>

lemmas agg_eval_defs = aggregateByField_def group_rows_def group_step_def js_entries_def
  is_array_index_def aggregate_group_def agg_metric_def agg_values_def find_field_def get_def
  put_def isNaN_def nsum_def is_digit_def padStart_def

lemmas csv_eval_defs = parseCSV_def parse_row_def parse_cell_def put_def

lemma js_Number_empty: "js_Number [] = Fin 0"
  by (simp add: js_Number_def trim_def)

lemma agg_values_append: "agg_values (rs1 @ rs2) metric = agg_values rs1 metric @ agg_values rs2 metric"
  by (simp add: agg_values_def)

lemma agg_values_blank:
  "get r metric = Str [] \<Longrightarrow> agg_values (r # rs) metric = Fin 0 # agg_values rs metric"
  by (simp add: agg_values_def isNaN_def js_Number_empty)

text \<open>
  Claim C10. A cell of a CSV line that is blank (empty once trimmed) is stored by
  \<^verbatim>\<open>parseCSV\<close> as the empty string, and so is a cell the line is too short for; the first
  pass of \<^verbatim>\<open>processData\<close> leaves the empty string alone. In the aggregator the empty
  string passes the filter, since \<^verbatim>\<open>Number("")\<close> is 0 and not NaN: the row contributes the
  value 0 at its place among the values of the group, and the aggregated value is the
  mean of the values with that 0.
\<close>

theorem blank_cell_contributes_zero:
  assumes "trim cell = []" and "get r metric = parse_cell (Some cell)"
  shows "get r metric = Str []
         \<and> parse_cell None = Str []
         \<and> convert_value metric (get r metric) = Str []
         \<and> agg_values (rs1 @ r # rs2) metric
             = agg_values rs1 metric @ Fin 0 # agg_values rs2 metric
         \<and> get (agg_metric (rs1 @ r # rs2) result metric) metric
             = Num (ndiv (nsum (agg_values rs1 metric @ Fin 0 # agg_values rs2 metric))
                         (Fin (real (Suc (length (agg_values rs1 metric)
                                          + length (agg_values rs2 metric))))))"
proof -
  have b: "get r metric = Str []"
    using assms by (simp add: parse_cell_def js_Number_empty)
  have v: "agg_values (rs1 @ r # rs2) metric
           = agg_values rs1 metric @ Fin 0 # agg_values rs2 metric"
    by (simp add: agg_values_append agg_values_blank[OF b])
  have "get (agg_metric (rs1 @ r # rs2) result metric) metric
        = Num (ndiv (nsum (agg_values rs1 metric @ Fin 0 # agg_values rs2 metric))
                    (Fin (real (Suc (length (agg_values rs1 metric)
                                     + length (agg_values rs2 metric))))))"
    unfolding agg_metric_def v by (simp add: get_put)
  with b v show ?thesis
    by (simp add: parse_cell_def js_Number_empty convert_value_def)
qed

theorem blank_cell_contributes_zero_witness:
  "trim [] = []
   \<and> get [(''State Abbreviation'', Str ''AL''), (''Adult Obesity raw value'', Str [])]
         ''Adult Obesity raw value'' = parse_cell (Some [])
   \<and> parseCSV ''State Abbreviation,Adult Obesity raw value\<newline>AL,10\<newline>AL,\<newline>''
       = [[(''State Abbreviation'', Str ''AL''), (''Adult Obesity raw value'', Num (Fin 10))],
          [(''State Abbreviation'', Str ''AL''), (''Adult Obesity raw value'', Str [])]]
   \<and> agg_values
         [[(''State Abbreviation'', Str ''AL''), (''Adult Obesity raw value'', Num (Fin 10))],
          [(''State Abbreviation'', Str ''AL''), (''Adult Obesity raw value'', Str [])]]
         ''Adult Obesity raw value'' = [Fin 10, Fin 0]
   \<and> aggregateByField print_number
         (parseCSV ''State Abbreviation,Adult Obesity raw value\<newline>AL,10\<newline>AL,\<newline>'')
         ''State Abbreviation'' [''Adult Obesity raw value'']
       = [[(''State Abbreviation'', Str ''AL''), (''Adult Obesity raw value'', Num (Fin 5)),
           (''State AbbreviationCount'', Num (Fin 2))]]"
proof -
  let ?r1 = "[(''State Abbreviation'', Str ''AL''), (''Adult Obesity raw value'', Num (Fin 10))]"
  let ?r2 = "[(''State Abbreviation'', Str ''AL''), (''Adult Obesity raw value'', Str [])]"
  have h1: "trim [] = []" by (simp add: trim_def)
  have h2: "get ?r2 ''Adult Obesity raw value'' = parse_cell (Some [])"
    by (simp add: get_def parse_cell_def trim_def js_Number_empty)
  have csv: "parseCSV ''State Abbreviation,Adult Obesity raw value\<newline>AL,10\<newline>AL,\<newline>''
             = [?r1, ?r2]"
    by (simp add: csv_eval_defs parse_defs)
  have agg: "aggregateByField print_number [?r1, ?r2] ''State Abbreviation''
               [''Adult Obesity raw value'']
             = [[(''State Abbreviation'', Str ''AL''), (''Adult Obesity raw value'', Num (Fin 5)),
                 (''State AbbreviationCount'', Num (Fin 2))]]"
    by (simp add: agg_eval_defs parse_defs)
  from blank_cell_contributes_zero[OF h1 h2, of "[?r1]" "[]"]
  have "agg_values ([?r1] @ ?r2 # []) ''Adult Obesity raw value''
        = agg_values [?r1] ''Adult Obesity raw value'' @ Fin 0
          # agg_values [] ''Adult Obesity raw value''"
    by blast
  then have v: "agg_values [?r1, ?r2] ''Adult Obesity raw value'' = [Fin 10, Fin 0]"
    by (simp add: agg_values_def get_def isNaN_def)
  from h1 h2 csv agg v show ?thesis by simp
qed

lemmas std_eval_defs = standardizedData_of_def convert_row_def convert_value_def keep_row_def
  standardize_row_def standardize_state_def standardize_name_def standardize_fips_def js_or_def

lemma state_csv_rows:
  "parseCSV state_csv
   = [[(''State Abbreviation'', Str ''AL''), (''Adult Obesity raw value'', Num (Fin 10))],
      [(''State Abbreviation'', Str ''AL''), (''Adult Obesity raw value'', Num (Fin 20))],
      [(''State Abbreviation'', Str ''AL''), (''Adult Obesity raw value'', Str [])]]"
  by (simp add: state_csv_def csv_eval_defs parse_defs)

lemma state_csv_processed:
  "processedData_of print_number
     [[(''State Abbreviation'', Str ''AL''), (''Adult Obesity raw value'', Num (Fin 10))],
      [(''State Abbreviation'', Str ''AL''), (''Adult Obesity raw value'', Num (Fin 20))],
      [(''State Abbreviation'', Str ''AL''), (''Adult Obesity raw value'', Str [])]] State
   = [[(''State Abbreviation'', Str ''AL''), (''Adult Obesity raw value'', Num (Fin 10)),
       (''State AbbreviationCount'', Num (Fin 3))]]"
proof -
  have "standardizedData_of print_number
     [[(''State Abbreviation'', Str ''AL''), (''Adult Obesity raw value'', Num (Fin 10))],
      [(''State Abbreviation'', Str ''AL''), (''Adult Obesity raw value'', Num (Fin 20))],
      [(''State Abbreviation'', Str ''AL''), (''Adult Obesity raw value'', Str [])]] State
   = [[(''State Abbreviation'', Str ''AL''), (''Adult Obesity raw value'', Num (Fin 10))],
      [(''State Abbreviation'', Str ''AL''), (''Adult Obesity raw value'', Num (Fin 20))],
      [(''State Abbreviation'', Str ''AL''), (''Adult Obesity raw value'', Str [])]]"
    by (simp add: std_eval_defs get_def)
  then show ?thesis
    by (simp add: processedData_of_def) (simp add: agg_eval_defs importantMetrics_def parse_defs)
qed

lemma blank_state_csv_rows:
  "parseCSV blank_state_csv
   = [[(''State Abbreviation'', Str ''AK''), (''Adult Obesity raw value'', Str [])],
      [(''State Abbreviation'', Str ''AK''), (''Adult Obesity raw value'', Str [])]]"
  by (simp add: blank_state_csv_def csv_eval_defs parse_defs)

lemma blank_state_csv_processed:
  "processedData_of print_number
     [[(''State Abbreviation'', Str ''AK''), (''Adult Obesity raw value'', Str [])],
      [(''State Abbreviation'', Str ''AK''), (''Adult Obesity raw value'', Str [])]] State
   = [[(''State Abbreviation'', Str ''AK''), (''Adult Obesity raw value'', Num (Fin 0)),
       (''State AbbreviationCount'', Num (Fin 2))]]"
proof -
  have "standardizedData_of print_number
     [[(''State Abbreviation'', Str ''AK''), (''Adult Obesity raw value'', Str [])],
      [(''State Abbreviation'', Str ''AK''), (''Adult Obesity raw value'', Str [])]] State
   = [[(''State Abbreviation'', Str ''AK''), (''Adult Obesity raw value'', Str [])],
      [(''State Abbreviation'', Str ''AK''), (''Adult Obesity raw value'', Str [])]]"
    by (simp add: std_eval_defs get_def)
  then show ?thesis
    by (simp add: processedData_of_def) (simp add: agg_eval_defs importantMetrics_def parse_defs)
qed

lemma state_csv_dataProcessing:
  "processData_dataProcessing print_number
     [[(''State Abbreviation'', Str ''AL''), (''Adult Obesity raw value'', Num (Fin 10))],
      [(''State Abbreviation'', Str ''AL''), (''Adult Obesity raw value'', Num (Fin 20))],
      [(''State Abbreviation'', Str ''AL''), (''Adult Obesity raw value'', Str [])]] State
   = Inr ([[(''State Abbreviation'', Str ''AL''), (''Adult Obesity raw value'', Num (Fin 10)),
            (''State AbbreviationCount'', Num (Fin 3))]],
          [''State Abbreviation'', ''Adult Obesity raw value'', ''State AbbreviationCount''])"
  by (simp add: processData_dataProcessing_def keep_row_dataProcessing_def
      aggregateByField_dataProcessing_def aggregate_group_dataProcessing_def js_keys_def
      agg_eval_defs parse_defs)

text \<open>
  Claim C5. The claim asks that a value which is missing neither counts in the mean of
  its group nor makes the group's metric appear: a state whose counties report 10, 20 and
  nothing has the mean 15, and a metric no county of the group reports is left out of
  the aggregated record. In a CSV file a county that reports nothing has a blank cell,
  which \<^verbatim>\<open>parseCSV\<close> stores as the empty string. The filter of \<^verbatim>\<open>aggregateByField\<close>
  tests \<^verbatim>\<open>undefined\<close>, \<^verbatim>\<open>null\<close> and \<^verbatim>\<open>isNaN(Number(v))\<close> but not the empty string, which
  \<^verbatim>\<open>Number\<close> reads as 0 (the conversion in \<^verbatim>\<open>parseCSV\<close> has the test
  \<^verbatim>\<open>value !== ""\<close>). So the state of the three counties gets the aggregate 10, the sum
  \<open>10 + 20 + 0\<close> over 3, and a state whose counties all have the cell blank gets the
  metric with the value 0. The count is the number of rows. The aggregator of
  \<^verbatim>\<open>lib/data-processing.ts\<close> has the same filter and gives the same aggregate.
\<close>

theorem aggregateByField_counts_blank_cells:
  "parseCSV state_csv
     = [[(''State Abbreviation'', Str ''AL''), (''Adult Obesity raw value'', Num (Fin 10))],
        [(''State Abbreviation'', Str ''AL''), (''Adult Obesity raw value'', Num (Fin 20))],
        [(''State Abbreviation'', Str ''AL''), (''Adult Obesity raw value'', Str [])]]
   \<and> processedData_of print_number (parseCSV state_csv) State
     = [[(''State Abbreviation'', Str ''AL''), (''Adult Obesity raw value'', Num (Fin 10)),
         (''State AbbreviationCount'', Num (Fin 3))]]
   \<and> processData_dataProcessing print_number (parseCSV state_csv) State
     = Inr ([[(''State Abbreviation'', Str ''AL''), (''Adult Obesity raw value'', Num (Fin 10)),
              (''State AbbreviationCount'', Num (Fin 3))]],
            [''State Abbreviation'', ''Adult Obesity raw value'', ''State AbbreviationCount''])
   \<and> parseCSV blank_state_csv
     = [[(''State Abbreviation'', Str ''AK''), (''Adult Obesity raw value'', Str [])],
        [(''State Abbreviation'', Str ''AK''), (''Adult Obesity raw value'', Str [])]]
   \<and> processedData_of print_number (parseCSV blank_state_csv) State
     = [[(''State Abbreviation'', Str ''AK''), (''Adult Obesity raw value'', Num (Fin 0)),
         (''State AbbreviationCount'', Num (Fin 2))]]"
  by (simp only: state_csv_rows state_csv_processed state_csv_dataProcessing
      blank_state_csv_rows blank_state_csv_processed simp_thms)

section \<open>Properties of the burden index calculator\<close>







text \<open>The index in the result of \<^verbatim>\<open>processData\<close> is the index of the processed records,
  computed before the \<^verbatim>\<open>try\<close> block.\<close>

lemma processData_healthBurdenIndex:
  "processData nts raw lvl g = Some b
   \<Longrightarrow> healthBurdenIndex b = burden_index nts lvl (processedData_of nts raw lvl)"
  by (auto simp: processData_def split: option.splits)














section \<open>The steps of the repository inside the orchestrator\<close>

lemma nearest_centroid_less:
  assumes "0 < k"
  shows "nearest_centroid p centroids k < k"
proof -
  have "snd (foldl (\<lambda>(minDist, minCluster) j.
                   if nlt (euclideanDistance p (centroids ! j)) minDist
                   then (euclideanDistance p (centroids ! j), j)
                   else (minDist, minCluster))
                (PInf, 0) [0..<n]) < max 1 n" for n
  proof (induction n)
    case 0
    then show ?case by simp
  next
    case (Suc n)
    then show ?case by (auto simp: case_prod_beta max_def split: if_splits)
  qed
  from this[of k] assms show ?thesis by (simp add: nearest_centroid_def max_def)
qed

lemma assign_points_inv:
  assumes "0 < k" "length assignments = n" "\<forall>i < n. assignments ! i < k"
  shows "length (fst (foldl (\<lambda>(as, changed) i.
              if as ! i \<noteq> nearest_centroid (points ! i) centroids k
              then (as[i := nearest_centroid (points ! i) centroids k], True)
              else (as, changed))
           (assignments, ch) is)) = n
       \<and> (\<forall>i < n. fst (foldl (\<lambda>(as, changed) i.
              if as ! i \<noteq> nearest_centroid (points ! i) centroids k
              then (as[i := nearest_centroid (points ! i) centroids k], True)
              else (as, changed))
           (assignments, ch) is) ! i < k)"
  using assms(2,3)
proof (induction "is" arbitrary: assignments ch)
  case Nil
  then show ?case by simp
next
  case (Cons j js)
  let ?as' = "assignments[j := nearest_centroid (points ! j) centroids k]"
  have l: "length ?as' = n" using Cons.prems by simp
  have b: "\<forall>i < n. ?as' ! i < k"
  proof (intro allI impI)
    fix i assume i: "i < n"
    show "?as' ! i < k"
    proof (cases "i = j")
      case True
      then show ?thesis using i Cons.prems(1) nearest_centroid_less[OF assms(1)] by simp
    next
      case False
      then show ?thesis using i Cons.prems(2) by simp
    qed
  qed
  show ?case
    using Cons.IH[OF l b] Cons.IH[OF Cons.prems] by simp
qed

lemma draw_index_in_range:
  assumes "points \<noteq> []" "0 \<le> u" "u < 1"
  shows "0 \<le> \<lfloor>u * real (length points)\<rfloor> \<and> \<lfloor>u * real (length points)\<rfloor> < int (length points)"
proof -
  have n: "0 < real (length points)" using assms(1) by simp
  have lo: "0 \<le> u * real (length points)" using assms(2) by simp
  have hi: "u * real (length points) < real (length points)" using assms(3) n by simp
  have "\<lfloor>u * real (length points)\<rfloor> < int (length points)"
    using hi by (simp add: floor_less_iff)
  moreover have "0 \<le> \<lfloor>u * real (length points)\<rfloor>" using lo by simp
  ultimately show ?thesis by blast
qed

lemma init_centroids_no_throw:
  assumes "init_centroids points k cs used g = Some y"
  shows "points \<noteq> [] \<longrightarrow> (\<forall>u \<in> sset g. 0 \<le> u \<and> u < 1)
         \<longrightarrow> (\<exists>cs' g'. y = Inr (cs', g') \<and> sset g' \<subseteq> sset g)"
proof (rule init_centroids.raw_induct
         [where P = "\<lambda>points k cs used g y. points \<noteq> [] \<longrightarrow> (\<forall>u \<in> sset g. 0 \<le> u \<and> u < 1)
                       \<longrightarrow> (\<exists>cs' g'. y = Inr (cs', g') \<and> sset g' \<subseteq> sset g)",
          OF _ assms], goal_cases)
  case (1 init_centroids points k centroids usedIndices g y)
  show ?case
  proof (intro impI)
    assume ne: "points \<noteq> []" and r: "\<forall>u \<in> sset g. 0 \<le> u \<and> u < 1"
    have sub: "sset (stl g) \<subseteq> sset g" by (auto dest: stl_sset)
    with r have rs: "\<forall>u \<in> sset (stl g). 0 \<le> u \<and> u < 1" by blast
    have "shd g \<in> sset g" by (rule shd_sset)
    with r have "0 \<le> shd g" "shd g < 1" by auto
    from draw_index_in_range[OF ne this]
    have idx: "0 \<le> \<lfloor>shd g * real (length points)\<rfloor>"
      "\<lfloor>shd g * real (length points)\<rfloor> < int (length points)" by blast+
    show "\<exists>cs' g'. y = Inr (cs', g') \<and> sset g' \<subseteq> sset g"
    proof (cases "length centroids < k")
      case False
      with 1(2) show ?thesis by auto
    next
      case True
      show ?thesis
      proof (cases "\<lfloor>shd g * real (length points)\<rfloor> \<notin> set usedIndices")
        case True
        with \<open>length centroids < k\<close> 1(2) idx
        have "init_centroids points k
                (centroids @ [points ! nat \<lfloor>shd g * real (length points)\<rfloor>])
                (usedIndices @ [\<lfloor>shd g * real (length points)\<rfloor>]) (stl g) = Some y"
          by simp
        from 1(1)[OF this] ne rs sub show ?thesis by blast
      next
        case False
        with \<open>length centroids < k\<close> 1(2)
        have "init_centroids points k centroids usedIndices (stl g) = Some y" by simp
        from 1(1)[OF this] ne rs sub show ?thesis by blast
      qed
    qed
  qed
qed

lemma kmeans_loop_no_throw:
  "0 < k \<Longrightarrow> length assignments = length points
   \<Longrightarrow> \<forall>i < length points. assignments ! i < k
   \<Longrightarrow> \<exists>r. kmeans_loop points k centroids assignments changed iterations = Inr r"
proof (induction points k centroids assignments changed iterations rule: kmeans_loop.induct)
  case (1 points k centroids assignments changed iterations)
  show ?case
  proof (cases "changed \<and> iterations < 100")
    case False
    show ?thesis by (subst kmeans_loop.simps) (simp only: False if_False, blast)
  next
    case True
    let ?as = "fst (assign_points points k centroids assignments)"
    have inv: "length ?as = length points \<and> (\<forall>i < length points. ?as ! i < k)"
      unfolding assign_points_def
      by (rule assign_points_inv[OF 1(2) 1(3) 1(4)])
    then obtain cs where u: "update_centroids points k centroids ?as = Inr cs"
      using update_centroids_ok by blast
    from "1.IH"[OF True u 1(2)] inv
    obtain r where "kmeans_loop points k cs ?as
                      (snd (assign_points points k centroids assignments)) (Suc iterations) = Inr r"
      by blast
    with True u show ?thesis by (subst kmeans_loop.simps) simp
  qed
qed

lemma kMeansClustering_no_throw:
  assumes "0 < k" "\<forall>u \<in> sset g. 0 \<le> u \<and> u < 1"
  shows "kMeansClustering points k g \<noteq> Some (Inl t)"
proof (cases "points = []")
  case True
  then show ?thesis by (simp add: kMeansClustering_def)
next
  case False
  show ?thesis
  proof (cases "init_centroids points k [] [] g")
    case None
    with False show ?thesis by (simp add: kMeansClustering_def)
  next
    case (Some y)
    from init_centroids_no_throw[OF Some] False assms(2)
    obtain cs g' where y: "y = Inr (cs, g')" by blast
    have "\<exists>r. kmeans_loop points k cs (replicate (length points) 0) True 0 = Inr r"
      by (rule kmeans_loop_no_throw) (use assms(1) in simp_all)
    then obtain r where "kmeans_loop points k cs (replicate (length points) 0) True 0 = Inr r"
      by blast
    with False Some y show ?thesis by (simp add: kMeansClustering_def)
  qed
qed

lemma performClustering_no_throw:
  assumes "0 < k" "\<forall>u \<in> sset g. 0 \<le> u \<and> u < 1"
  shows "performClustering pcaData k g \<noteq> Some (Inl t)"
  using kMeansClustering_no_throw[OF assms, of "map (\<lambda>d. [pc1 d, pc2 d]) pcaData" t]
  by (auto simp: performClustering_def split: option.splits sum.splits)

lemma sset_sdrop_subset: "sset (sdrop n s) \<subseteq> sset s"
proof
  fix x assume "x \<in> sset (sdrop n s)"
  then obtain m where "x = sdrop n s !! m" unfolding sset_range by blast
  then have "x = s !! (n + m)" by (simp only: sdrop_snth)
  then show "x \<in> sset s" by (simp only: snth_sset)
qed

lemma simplePCA_from_rest: "snd (simplePCA_from i rows indices g) = sdrop (2 * length rows) g"
  by (induction rows arbitrary: i g) simp_all

lemma standardizeData_returns:
  "m \<noteq> [] \<Longrightarrow> \<exists>st. standardizeData m = Inr st \<and> length st = length m"
  by (cases m) (simp_all add: standardizeData_def)

lemma performPCA_returns:
  assumes "data \<noteq> []"
  shows "\<exists>p. performPCA data features g = Inr (p, sdrop (2 * length data) g)"
proof -
  let ?m = "map (\<lambda>d. map (\<lambda>f. case get d f of Num n \<Rightarrow> n | _ \<Rightarrow> Fin 0) features) data"
  have "?m \<noteq> []" using assms by simp
  from standardizeData_returns[OF this]
  obtain st where st: "standardizeData ?m = Inr st" "length st = length data"
    by auto
  obtain p g2 where pg: "simplePCA_from 0 st [0..<length data] g = (p, g2)"
    by (cases "simplePCA_from 0 st [0..<length data] g")
  have "g2 = snd (simplePCA_from 0 st [0..<length data] g)" by (simp only: pg snd_conv)
  also have "\<dots> = sdrop (2 * length data) g" by (simp only: simplePCA_from_rest st(2))
  finally have g2: "g2 = sdrop (2 * length data) g" .
  have "performPCA data features g = Inr (p, g2)"
    by (simp add: performPCA_def st(1) simplePCA_def pg)
  then show ?thesis unfolding g2 by blast
qed

text \<open>
  Claim C3 speaks of the inputs on which the projection or the clustering step throws.
  There is none: whatever the processed records, with draws in \<open>[0, 1)\<close> neither
  \<^verbatim>\<open>performPCA\<close> nor \<^verbatim>\<open>performClustering\<close> throws where \<^verbatim>\<open>processData\<close> calls them (with at
  least one metric available, and clustering on a non-empty projection with at most as
  many clusters as points). The \<^verbatim>\<open>catch\<close> block of \<^verbatim>\<open>processData\<close> is never entered.
\<close>

lemma processData_steps_never_throw:
  assumes "take (min 8 (length (available_metrics pd))) (available_metrics pd) \<noteq> []"
    and "\<forall>u \<in> sset g. 0 \<le> u \<and> u < 1"
  shows "performPCA pd (take (min 8 (length (available_metrics pd))) (available_metrics pd)) g
           \<noteq> Inl t
         \<and> (\<forall>p g'. performPCA pd (take (min 8 (length (available_metrics pd)))
                                    (available_metrics pd)) g = Inr (p, g') \<and> p \<noteq> []
                \<longrightarrow> performClustering p (min 5 (length p)) g' \<noteq> Some (Inl t))"
proof -
  let ?fs = "take (min 8 (length (available_metrics pd))) (available_metrics pd)"
  have ne: "pd \<noteq> []"
  proof
    assume "pd = []"
    then have "available_metrics pd = []" by (simp add: available_metrics_def)
    then have "?fs = []" by simp
    with assms(1) show False by blast
  qed
  from performPCA_returns[OF ne, of ?fs g]
  obtain p0 where p0: "performPCA pd ?fs g = Inr (p0, sdrop (2 * length pd) g)" by blast
  have r: "\<forall>u \<in> sset (sdrop (2 * length pd) g). 0 \<le> u \<and> u < 1"
  proof
    fix u assume "u \<in> sset (sdrop (2 * length pd) g)"
    then have "u \<in> sset g" by (rule subsetD[OF sset_sdrop_subset])
    with assms(2) show "0 \<le> u \<and> u < 1" by (rule bspec)
  qed
  have c: "performClustering p (min 5 (length p)) g' \<noteq> Some (Inl t)"
    if "performPCA pd ?fs g = Inr (p, g')" "p \<noteq> []" for p g'
  proof -
    from that(1) p0 have g': "g' = sdrop (2 * length pd) g" by simp
    have k: "0 < min 5 (length p)" using that(2) by simp
    show ?thesis unfolding g' by (rule performClustering_no_throw[OF k r])
  qed
  have a: "performPCA pd ?fs g \<noteq> Inl t" unfolding p0 by simp
  show ?thesis
  proof (intro conjI allI impI)
    show "performPCA pd ?fs g \<noteq> Inl t" by (rule a)
  next
    fix p g'
    assume "performPCA pd ?fs g = Inr (p, g') \<and> p \<noteq> []"
    then show "performClustering p (min 5 (length p)) g' \<noteq> Some (Inl t)"
      using c by blast
  qed
qed

section \<open>The standardization engine on a constant column\<close>

lemma rnd_tenth: "rnd (1 / 10) = Fin (3602879701896397 / 36028797018963968)"
  using rnd_eq[of "- 4" "1 / 10" "- 56" 7205759403792794]
  by (simp add: pow2_def round_even_def)

lemma js_Number_tenth: "js_Number ''0.1'' = Fin (3602879701896397 / 2 ^ 55)"
  by (simp add: parse_defs rnd_tenth)

text \<open>The sum 0.1 + 0.1 + 0.1 in double arithmetic is 0.30000000000000004, and a third of
  it is 0.10000000000000002, the double next above 0.1.\<close>

lemma rnd_sum_tenths:
  "rnd (3602879701896397 / 36028797018963968) = Fin (3602879701896397 / 36028797018963968)"
  "rnd (3602879701896397 / 18014398509481984) = Fin (3602879701896397 / 18014398509481984)"
  "rnd (10808639105689191 / 36028797018963968) = Fin (1351079888211149 / 4503599627370496)"
  "rnd (1351079888211149 / 13510798882111488) = Fin (7205759403792795 / 72057594037927936)"
proof -
  show "rnd (3602879701896397 / 36028797018963968) = Fin (3602879701896397 / 36028797018963968)"
    using rnd_exact[of "3602879701896397 / 36028797018963968" 3602879701896397 "- 55"]
    by (simp add: pow2_def)
  show "rnd (3602879701896397 / 18014398509481984) = Fin (3602879701896397 / 18014398509481984)"
    using rnd_exact[of "3602879701896397 / 18014398509481984" 3602879701896397 "- 54"]
    by (simp add: pow2_def)
  show "rnd (10808639105689191 / 36028797018963968) = Fin (1351079888211149 / 4503599627370496)"
    using rnd_eq[of "- 2" "10808639105689191 / 36028797018963968" "- 54" 5404319552844596]
    by (simp add: pow2_def round_even_def)
  show "rnd (1351079888211149 / 13510798882111488) = Fin (7205759403792795 / 72057594037927936)"
    using rnd_eq[of "- 4" "1351079888211149 / 13510798882111488" "- 56" 7205759403792795]
    by (simp add: pow2_def round_even_def)
qed

text \<open>The deviation of 0.1 from that mean is \<open>- 2\<^sup>-\<^sup>5\<^sup>6\<close>; its square and the sums of up to
  three such squares are doubles.\<close>

lemma rnd_deviations:
  "rnd (- (1 / 72057594037927936)) = Fin (- (1 / 72057594037927936))"
  "rnd (1 / 72057594037927936) = Fin (1 / 72057594037927936)"
  "rnd (1 / 5192296858534827628530496329220096)
     = Fin (1 / 5192296858534827628530496329220096)"
  "rnd (1 / 2596148429267413814265248164610048)
     = Fin (1 / 2596148429267413814265248164610048)"
  "rnd (3 / 5192296858534827628530496329220096)
     = Fin (3 / 5192296858534827628530496329220096)"
  using rnd_exact[of "- (1 / 72057594037927936)" "- 1" "- 56"]
    rnd_exact[of "1 / 72057594037927936" 1 "- 56"]
    rnd_exact[of "1 / 5192296858534827628530496329220096" 1 "- 112"]
    rnd_exact[of "1 / 2596148429267413814265248164610048" 1 "- 111"]
    rnd_exact[of "3 / 5192296858534827628530496329220096" 3 "- 112"]
  by (simp_all add: pow2_def)

lemma col_mean_tenth:
  "col_mean [[Fin (3602879701896397 / 2 ^ 55)], [Fin (3602879701896397 / 2 ^ 55)],
             [Fin (3602879701896397 / 2 ^ 55)]] 0 = Fin (7205759403792795 / 2 ^ 56)"
  by (simp add: col_mean_def column_def nth_num_def rnd_sum_tenths)

lemma sqrt_pow2_112: "sqrt (1 / 2 ^ 112) = 1 / 2 ^ 56"
proof -
  have "(1 / (2::real) ^ 112) = (1 / 2 ^ 56)\<^sup>2" by (simp add: power_divide)
  then show ?thesis by (simp only: real_sqrt_abs) simp
qed

lemma col_std_tenth:
  "col_std [[Fin (3602879701896397 / 2 ^ 55)], [Fin (3602879701896397 / 2 ^ 55)],
            [Fin (3602879701896397 / 2 ^ 55)]] 0 = Fin (1 / 2 ^ 56)"
proof -
  have s: "sqrt (1 / 5192296858534827628530496329220096) = 1 / 72057594037927936"
    using sqrt_pow2_112 by simp
  show ?thesis
    using col_mean_tenth
    apply (simp add: col_std_def column_def nth_num_def nsub_def npow2_def rnd_deviations Let_def)
    apply (simp add: s rnd_deviations)
    done
qed

lemma constant_column_processed:
  "constant_column_counties
   = [[(''FIPS'', Str ''01001''), (''Name'', Str ''A''), (''State Abbreviation'', Str ''AL''),
       (''Adult Obesity raw value'', Num (Fin (3602879701896397 / 2 ^ 55)))],
      [(''FIPS'', Str ''01003''), (''Name'', Str ''B''), (''State Abbreviation'', Str ''AL''),
       (''Adult Obesity raw value'', Num (Fin (3602879701896397 / 2 ^ 55)))],
      [(''FIPS'', Str ''01005''), (''Name'', Str ''C''), (''State Abbreviation'', Str ''AL''),
       (''Adult Obesity raw value'', Num (Fin (3602879701896397 / 2 ^ 55)))]]"
  by (simp add: constant_column_counties_def constant_column_csv_def csv_eval_defs parse_defs
      processedData_of_def std_eval_defs get_def padStart_def print_number_def nat_digits.simps
      rnd_tenth)

lemma constant_column_metrics:
  "take (min 8 (length (available_metrics constant_column_counties)))
     (available_metrics constant_column_counties) = [''Adult Obesity raw value'']"
  unfolding constant_column_processed
  by (simp add: available_metrics_def importantMetrics_def get_def)

lemma constant_column_matrix:
  "map (\<lambda>d. map (\<lambda>f. case get d f of Num n \<Rightarrow> n | _ \<Rightarrow> Fin 0)
                 [''Adult Obesity raw value''])
       constant_column_counties
   = [[Fin (3602879701896397 / 2 ^ 55)], [Fin (3602879701896397 / 2 ^ 55)],
      [Fin (3602879701896397 / 2 ^ 55)]]"
  unfolding constant_column_processed by (simp add: get_def)

lemma standardizeData_tenth:
  "standardizeData [[Fin (3602879701896397 / 2 ^ 55)], [Fin (3602879701896397 / 2 ^ 55)],
                    [Fin (3602879701896397 / 2 ^ 55)]]
   = Inr [[Fin (- 1)], [Fin (- 1)], [Fin (- 1)]]"
  using col_mean_tenth col_std_tenth
  by (simp add: standardizeData_def nth_num_def nsub_def rnd_deviations)

lemma constant_column_length: "length constant_column_counties = 3"
  unfolding constant_column_processed by simp

text \<open>
  Claim C7. The claim asks that a constant column come out all zero. \<^verbatim>\<open>standardizeData\<close>
  tests the standard deviation it computed against 0 (\<^verbatim>\<open>if (stds[j] === 0) stds[j] = 1\<close>),
  and the standard deviation of a constant column is not always 0 in double arithmetic.
  For three counties with the value 0.1 of their one metric, \<^verbatim>\<open>processData\<close> calls
  \<^verbatim>\<open>performPCA\<close> with that metric, which passes the matrix of three rows 0.1 to
  \<^verbatim>\<open>standardizeData\<close>: the mean is 0.10000000000000002, every deviation is \<open>- 2\<^sup>-\<^sup>5\<^sup>6\<close>, the
  standard deviation is \<open>2\<^sup>-\<^sup>5\<^sup>6\<close>, the test fails and every entry of the column becomes
  \<open>- 1\<close>, which is what \<^verbatim>\<open>simplePCA\<close> is given.
\<close>

theorem standardizeData_constant_column:
  "js_Number ''0.1'' = Fin (3602879701896397 / 2 ^ 55)
   \<and> col_mean [[js_Number ''0.1''], [js_Number ''0.1''], [js_Number ''0.1'']] 0
       = Fin (7205759403792795 / 2 ^ 56)
   \<and> col_std [[js_Number ''0.1''], [js_Number ''0.1''], [js_Number ''0.1'']] 0
       = Fin (1 / 2 ^ 56)
   \<and> standardizeData [[js_Number ''0.1''], [js_Number ''0.1''], [js_Number ''0.1'']]
       = Inr [[Fin (- 1)], [Fin (- 1)], [Fin (- 1)]]
   \<and> map (\<lambda>d. map (\<lambda>f. case get d f of Num n \<Rightarrow> n | _ \<Rightarrow> Fin 0)
                   (take (min 8 (length (available_metrics constant_column_counties)))
                      (available_metrics constant_column_counties)))
         constant_column_counties
       = [[js_Number ''0.1''], [js_Number ''0.1''], [js_Number ''0.1'']]
   \<and> performPCA constant_column_counties
         (take (min 8 (length (available_metrics constant_column_counties)))
            (available_metrics constant_column_counties)) g
       = Inr (simplePCA [[Fin (- 1)], [Fin (- 1)], [Fin (- 1)]] [0..<3] g)"
  unfolding constant_column_metrics js_Number_tenth performPCA_def constant_column_matrix
    standardizeData_tenth constant_column_length
  using col_mean_tenth col_std_tenth by simp

section \<open>The correlation engine on constant columns\<close>

lemma sqrt_9_pow2_224: "sqrt (9 / 2 ^ 224) = 3 / 2 ^ 112"
proof -
  have "(9 / (2::real) ^ 224) = (3 / 2 ^ 112)\<^sup>2" by (simp add: power_divide)
  then show ?thesis by (simp only: real_sqrt_abs) simp
qed

lemma constant_columns_processed:
  "constant_columns_counties
   = [[(''FIPS'', Str ''01001''), (''Name'', Str ''A''), (''State Abbreviation'', Str ''AL''),
       (''Adult Obesity raw value'', Num (Fin (3602879701896397 / 2 ^ 55))),
       (''Food Insecurity raw value'', Num (Fin (3602879701896397 / 2 ^ 55)))],
      [(''FIPS'', Str ''01003''), (''Name'', Str ''B''), (''State Abbreviation'', Str ''AL''),
       (''Adult Obesity raw value'', Num (Fin (3602879701896397 / 2 ^ 55))),
       (''Food Insecurity raw value'', Num (Fin (3602879701896397 / 2 ^ 55)))],
      [(''FIPS'', Str ''01005''), (''Name'', Str ''C''), (''State Abbreviation'', Str ''AL''),
       (''Adult Obesity raw value'', Num (Fin (3602879701896397 / 2 ^ 55))),
       (''Food Insecurity raw value'', Num (Fin (3602879701896397 / 2 ^ 55)))]]"
  by (simp add: constant_columns_counties_def constant_columns_csv_def csv_eval_defs parse_defs
      processedData_of_def std_eval_defs get_def padStart_def print_number_def nat_digits.simps
      rnd_tenth)

lemma constant_columns_pairs:
  "corr_pairs constant_columns_counties
      ''Adult Obesity raw value'' ''Food Insecurity raw value''
   = replicate 3 (Fin (3602879701896397 / 2 ^ 55), Fin (3602879701896397 / 2 ^ 55))"
  unfolding constant_columns_processed
  by (simp add: corr_pairs_def corr_value_def valid_pair_def isNaN_def get_def numeral_3_eq_3)

text \<open>The two means are 0.10000000000000002 and the three sums of the loop are
  \<open>3 * 2\<^sup>-\<^sup>1\<^sup>1\<^sup>2\<close> each: no denominator is 0, and the quotient is 1.\<close>

lemma constant_columns_correlation:
  "correlation_of_pairs
     (replicate 3 (Fin (3602879701896397 / 2 ^ 55), Fin (3602879701896397 / 2 ^ 55)))
   = Fin 1"
proof -
  have p: "rnd (9 / 26959946667150639794667015087019630673637144422540572481103610249216)
           = Fin (9 / 26959946667150639794667015087019630673637144422540572481103610249216)"
    using rnd_exact[of "9 / 2 ^ 224" 9 "- 224"] by (simp add: pow2_def)
  have q: "sqrt (9 / 26959946667150639794667015087019630673637144422540572481103610249216)
           = 3 / 5192296858534827628530496329220096"
    using sqrt_9_pow2_224 by simp
  have m: "ndiv (foldl (\<lambda>sum d. nadd sum (fst d)) (Fin 0)
                  (replicate 3 (Fin (3602879701896397 / 36028797018963968),
                                Fin (3602879701896397 / 36028797018963968))))
                (Fin 3) = Fin (7205759403792795 / 72057594037927936)"
          "ndiv (foldl (\<lambda>sum d. nadd sum (snd d)) (Fin 0)
                  (replicate 3 (Fin (3602879701896397 / 36028797018963968),
                                Fin (3602879701896397 / 36028797018963968))))
                (Fin 3) = Fin (7205759403792795 / 72057594037927936)"
    by (simp_all add: numeral_3_eq_3 rnd_sum_tenths)
  have s: "corr_sums (replicate 3 (Fin (3602879701896397 / 36028797018963968),
                                   Fin (3602879701896397 / 36028797018963968)))
             (Fin (7205759403792795 / 72057594037927936))
             (Fin (7205759403792795 / 72057594037927936))
           = (Fin (3 / 5192296858534827628530496329220096),
              Fin (3 / 5192296858534827628530496329220096),
              Fin (3 / 5192296858534827628530496329220096))"
    by (simp add: corr_sums_def nsub_def numeral_3_eq_3 rnd_deviations)
  show ?thesis
    unfolding correlation_of_pairs_def
    by (simp add: m Let_def s p q rnd_deviations)
qed

text \<open>
  Claim C6. The claim asks for NaN whenever a metric has zero variance over the valid
  pairs. \<^verbatim>\<open>calculateCorrelation\<close> tests the sums of squared deviations it computed against
  0 (\<^verbatim>\<open>if (xDenominator === 0 || yDenominator === 0) return Number.NaN\<close>), and for a
  constant metric the sum is not always 0 in double arithmetic. For three counties in
  which both metrics are 0.1 throughout there are three valid pairs, all the same, both
  means are 0.10000000000000002, both sums are \<open>3 * 2\<^sup>-\<^sup>1\<^sup>1\<^sup>2\<close>, the test fails and the
  function returns the correlation 1.
\<close>

theorem calculateCorrelation_constant_columns:
  "corr_pairs constant_columns_counties
      ''Adult Obesity raw value'' ''Food Insecurity raw value''
     = replicate 3 (Fin (3602879701896397 / 2 ^ 55), Fin (3602879701896397 / 2 ^ 55))
   \<and> calculateCorrelation constant_columns_counties
        ''Adult Obesity raw value'' ''Food Insecurity raw value''
     = Fin 1"
  by (simp only: calculateCorrelation_def constant_columns_pairs constant_columns_correlation
      simp_thms)

end
